theory Spec2Isabelle
  imports Main "HOL-Library.Sublist"
begin

section \<open>The HTML tree builder (src/html/HtmlEmitter.ts)\<close>

text \<open>
  An \<open>HtmlNode\<close> is the object \<^verbatim>\<open>{ type, attributes?, content? }\<close>. The builder is
  dynamically typed (\<^verbatim>\<open>arg1?: any, arg2?: any\<close>), so the values it passes around are
  modelled by \<open>JsVal\<close>: \<^verbatim>\<open>undefined\<close>, a string, or an array of nodes. An absent
  \<open>attributes\<close> field is \<open>None\<close>; an absent \<open>content\<close> is \<open>Undefined\<close>.
\<close>

datatype HtmlNode =
  HtmlNode (node_type: string) (attributes: "(string \<times> JsVal) list option") (content: JsVal)
and JsVal = Undefined | Str string | Nodes "HtmlNode list"

text \<open>JavaScript truthiness, as used by \<^verbatim>\<open>if (arg2)\<close> and \<^verbatim>\<open>if (className)\<close>:
  \<^verbatim>\<open>undefined\<close> and the empty string are falsy, every array is truthy.\<close>

fun truthy :: "JsVal \<Rightarrow> bool" where
  "truthy Undefined = False"
| "truthy (Str s) = (s \<noteq> [])"
| "truthy (Nodes ns) = True"

text \<open>The private function \<^verbatim>\<open>_tag(type, className, content)\<close>.\<close>

definition tag_private :: "string \<Rightarrow> JsVal \<Rightarrow> JsVal \<Rightarrow> HtmlNode" where
  "tag_private ty className cont =
     (if truthy className
      then HtmlNode ty (Some [(''class'', className)]) cont
      else HtmlNode ty None cont)"

text \<open>\<^verbatim>\<open>tag(type, arg1?, arg2?)\<close>: an omitted argument is \<open>Undefined\<close>.\<close>

definition tag :: "string \<Rightarrow> JsVal \<Rightarrow> JsVal \<Rightarrow> HtmlNode" where
  "tag ty arg1 arg2 =
     (if truthy arg2 then tag_private ty arg1 arg2 else tag_private ty Undefined arg1)"

definition table :: "string list \<Rightarrow> HtmlNode" where
  "table headings =
     tag ''table'' (Nodes [
       tag ''thead'' (Nodes [
         tag ''tr'' (Nodes (map (\<lambda>h. tag ''th'' (Str h) Undefined) headings)) Undefined
       ]) Undefined
     ]) Undefined"

text \<open>A cell handed to \<^verbatim>\<open>tr\<close> is a string or a node (\<^verbatim>\<open>(string | HtmlNode)[]\<close>).\<close>

datatype Cell = CellStr string | CellNode HtmlNode

definition tr :: "Cell list \<Rightarrow> HtmlNode" where
  "tr cells =
     tag ''tr'' (Nodes (map (\<lambda>c. case c of
                                CellStr s \<Rightarrow> tag ''td'' (Str s) Undefined
                              | CellNode n \<Rightarrow> tag ''td'' (Nodes [n]) Undefined) cells)) Undefined"

text \<open>
  \<^verbatim>\<open>emit(styles, content)\<close> hands a two-element document (head, body) to the external
  \<^verbatim>\<open>html-creator\<close> package and returns its rendering. The rendering to a string is that
  package's; the model keeps the document that is handed over.
\<close>

definition emit :: "string list \<Rightarrow> HtmlNode list \<Rightarrow> HtmlNode list" where
  "emit styles cont =
     [ tag ''head'' (Nodes (map (\<lambda>s. HtmlNode ''link''
                                  (Some [(''rel'', Str ''stylesheet''),
                                         (''type'', Str ''text/css''),
                                         (''href'', Str s)]) Undefined) styles)) Undefined,
       tag ''body'' (Nodes cont) Undefined ]"

text \<open>
  Modelled from the spec: the documenter imports \<^verbatim>\<open>a\<close> from HtmlEmitter, but the
  HtmlEmitter.ts among the sources does not define it. The spec gives
  \<^verbatim>\<open>a(text, href, className?)\<close> \<open>\<rightarrow>\<close> an anchor node: the element \<^verbatim>\<open>a\<close> with the link text
  as content, the target as \<^verbatim>\<open>href\<close>, and the \<^verbatim>\<open>class\<close> attribute when a class name is given.
\<close>

definition a :: "string \<Rightarrow> string \<Rightarrow> JsVal \<Rightarrow> HtmlNode" where
  "a text href className =
     HtmlNode ''a''
       (Some ((''href'', Str href) # (if truthy className then [(''class'', className)] else [])))
       (Str text)"

text \<open>\<^verbatim>\<open>table.content.push(row)\<close> and \<^verbatim>\<open>table.content.length\<close> on a block node.\<close>

fun content_push :: "HtmlNode \<Rightarrow> HtmlNode \<Rightarrow> HtmlNode" where
  "content_push (HtmlNode ty attrs (Nodes ns)) row = HtmlNode ty attrs (Nodes (ns @ [row]))"
| "content_push n row = n"

fun content_length :: "HtmlNode \<Rightarrow> nat" where
  "content_length (HtmlNode ty attrs (Nodes ns)) = length ns"
| "content_length (HtmlNode ty attrs (Str s)) = length s"
| "content_length (HtmlNode ty attrs Undefined) = 0"


section \<open>The input: doc comments and API items\<close>

text \<open>
  The doc-comment AST of \<^verbatim>\<open>@microsoft/tsdoc\<close>, restricted to what the renderer reads.
  \<open>DocLinkTag linkText urlDestination\<close> carries the two optional strings the renderer
  looks at (a link with a code destination has no URL destination). \<open>DocOther k\<close> is a
  node of any other kind \<open>k\<close> of the library (FencedCode, EscapedText, ErrorText, ...).
\<close>

datatype DocNode =
    DocParagraph "DocNode list"
  | DocSoftBreak
  | DocCodeSpan string
  | DocLinkTag "string option" "string option"
  | DocPlainText string
  | DocOther string

record DocComment =
  summarySection :: "DocNode list"
  remarksBlock :: "DocNode list option"

text \<open>\<^verbatim>\<open>ApiItemKind\<close> of \<^verbatim>\<open>@microsoft/api-extractor-model\<close>; its member \<^verbatim>\<open>None\<close> is \<open>NoneKind\<close>.\<close>

datatype ApiItemKind =
    CallSignature | Class | Constructor | ConstructSignature | EntryPoint | Enum
  | EnumMember | Function | IndexSignature | Interface | Method | MethodSignature
  | Model | Namespace | Package | Property | PropertySignature | TypeAlias | Variable
  | NoneKind

record Parameter =
  name :: string
  parameterTypeExcerpt :: string

text \<open>
  What the documenter reads of one API item. The mixins and base classes an item may or
  may not have are optional fields:
  \<^item> \<open>overloadIndex\<close> is \<open>Some i\<close> exactly for items with \<^verbatim>\<open>ApiParameterListMixin\<close>,
    whose ordered \<open>parameters\<close> are then meaningful;
  \<^item> \<open>isStatic\<close> is \<open>Some b\<close> exactly for items with \<^verbatim>\<open>ApiStaticMixin\<close>;
  \<^item> \<open>propertyTypeExcerpt\<close> is \<open>Some text\<close> exactly for instances of \<^verbatim>\<open>ApiPropertyItem\<close>;
  \<^item> \<open>tsdocComment\<close> is \<open>Some c\<close> for an \<^verbatim>\<open>ApiDocumentedItem\<close> with a comment;
  \<^item> \<open>excerpt\<close> is \<open>Some (text, textWithModifiers)\<close> for an \<^verbatim>\<open>ApiDeclaredItem\<close>:
    \<^verbatim>\<open>excerpt.text\<close> and \<^verbatim>\<open>getExcerptWithModifiers()\<close>;
  \<^item> \<open>scopedNameWithinPackage\<close> is the result of \<^verbatim>\<open>getScopedNameWithinPackage()\<close>;
  \<^item> \<open>initializerExcerpt\<close> is the initializer text of an enum member.
\<close>

record ApiItemData =
  kind :: ApiItemKind
  displayName :: string
  scopedNameWithinPackage :: string
  overloadIndex :: "nat option"
  parameters :: "Parameter list"
  isStatic :: "bool option"
  isEventProperty :: bool
  propertyTypeExcerpt :: "string option"
  tsdocComment :: "DocComment option"
  excerpt :: "(string \<times> string) option"
  initializerExcerpt :: string

text \<open>
  The model tree: an item with its members, in the order in which the \<^verbatim>\<open>members\<close>
  getter of the model library returns them (it sorts them by their keys, that is by
  name first). An item is addressed by its position, that is by the data of its
  ancestors, root first, followed by its own; this list is what \<^verbatim>\<open>getHierarchy()\<close> of the
  model library returns for it.
\<close>

datatype ApiItem = ApiItem (item_data: ApiItemData) (members: "ApiItem list")

definition getHierarchy :: "ApiItemData list \<Rightarrow> ApiItemData \<Rightarrow> ApiItemData list" where
  "getHierarchy ancestors apiItem = ancestors @ [apiItem]"

text \<open>
  The documenter object \<^verbatim>\<open>this\<close>: the model it was constructed with, and the helpers it
  imports from files that are not among the sources (\<^verbatim>\<open>Utilities\<close> of this repository,
  \<^verbatim>\<open>PackageName\<close> of the node core library). The helpers are parameters of the model.
\<close>

record HtmlDocumenter =
  apiModel :: ApiItem
  getSafeFilenameForName :: "string \<Rightarrow> string"
  getUnscopedName :: "string \<Rightarrow> string"
  getConciseSignature :: "ApiItemData \<Rightarrow> string"

datatype error =
    UnsupportedApiItemKind ApiItemKind
  | UnsupportedDocNodeKind string
  | TypeError string

text \<open>The effects of a run: the console lines and the pages written, both in order.\<close>

record State =
  console :: "string list"
  files :: "(string \<times> HtmlNode list) list"


section \<open>The doc-comment renderer (\<^verbatim>\<open>_createDocNodes\<close>)\<close>

text \<open>
  \<open>renderDocNode\<close> is the callback given to \<^verbatim>\<open>nodes.map\<close> (\<open>None\<close> is its \<^verbatim>\<open>undefined\<close>),
  \<open>mapDocNodes\<close> is the \<^verbatim>\<open>map\<close> itself, left to right, and \<open>createDocNodes\<close> applies the
  final \<^verbatim>\<open>filter(n => !!n)\<close>. A \<^verbatim>\<open>throw\<close> is \<open>Inl\<close>.
\<close>

text \<open>JavaScript's \<^verbatim>\<open>x || d\<close> on an optional string: \<^verbatim>\<open>undefined\<close> and \<^verbatim>\<open>''\<close> yield \<open>d\<close>.\<close>

definition js_or :: "string option \<Rightarrow> string \<Rightarrow> string" where
  "js_or x d = (case x of None \<Rightarrow> d | Some s \<Rightarrow> if s \<noteq> [] then s else d)"

fun renderDocNode :: "DocNode \<Rightarrow> State \<Rightarrow> error + (HtmlNode option \<times> State)"
and mapDocNodes :: "DocNode list \<Rightarrow> State \<Rightarrow> error + (HtmlNode option list \<times> State)"
and createDocNodes :: "DocNode list \<Rightarrow> State \<Rightarrow> error + (HtmlNode list \<times> State)"
where
  "renderDocNode (DocParagraph ns) s =
     (case createDocNodes ns s of
        Inl e \<Rightarrow> Inl e
      | Inr (hs, s') \<Rightarrow> Inr (Some (tag ''p'' (Nodes hs) Undefined), s'))"
| "renderDocNode DocSoftBreak s = Inr (None, s)"
| "renderDocNode (DocCodeSpan code) s = Inr (Some (tag ''code'' (Str code) Undefined), s)"
| "renderDocNode (DocLinkTag linkText urlDestination) s =
     (let url = js_or urlDestination [] in
      if url \<noteq> []
      then Inr (Some (a (js_or linkText url) url Undefined), s)
      else Inr (Some (a (js_or linkText ''Missing Link'') ''missing-link'' Undefined),
                s\<lparr>console := console s @ [''DocLinkTag with codeDestination not supported'']\<rparr>))"
| "renderDocNode (DocPlainText text) s = Inr (Some (tag ''span'' (Str text) Undefined), s)"
| "renderDocNode (DocOther k) s = Inl (UnsupportedDocNodeKind k)"
| "mapDocNodes [] s = Inr ([], s)"
| "mapDocNodes (n # ns) s =
     (case renderDocNode n s of
        Inl e \<Rightarrow> Inl e
      | Inr (h, s') \<Rightarrow>
          (case mapDocNodes ns s' of
             Inl e \<Rightarrow> Inl e
           | Inr (hs, s'') \<Rightarrow> Inr (h # hs, s'')))"
| "createDocNodes ns s =
     (case mapDocNodes ns s of
        Inl e \<Rightarrow> Inl e
      | Inr (hs, s') \<Rightarrow> Inr (List.map_filter (\<lambda>h. h) hs, s'))"


section \<open>The filename resolver (\<^verbatim>\<open>_getFilenameForApiItem\<close>)\<close>

text \<open>The decimal digits of a number, as a template literal \<^verbatim>\<open>`${n}`\<close> prints it.\<close>

definition digit_char :: "nat \<Rightarrow> char" where
  "digit_char d = char_of (48 + d)"

function string_of_nat :: "nat \<Rightarrow> string" where
  "string_of_nat n =
     (if n < 10 then [digit_char n] else string_of_nat (n div 10) @ [digit_char (n mod 10)])"
  by pat_completeness auto
termination
  by (relation "measure (\<lambda>n. n)") auto

declare string_of_nat.simps [simp del]

text \<open>The loop variable \<^verbatim>\<open>qualifiedName\<close>: the safe display name, with the overload suffix.\<close>

definition qualifiedName :: "HtmlDocumenter \<Rightarrow> ApiItemData \<Rightarrow> string" where
  "qualifiedName self hierarchyItem =
     (case overloadIndex hierarchyItem of
        None \<Rightarrow> getSafeFilenameForName self (displayName hierarchyItem)
      | Some i \<Rightarrow>
          if 1 < i
          then getSafeFilenameForName self (displayName hierarchyItem) @ ''_'' @ string_of_nat (i - 1)
          else getSafeFilenameForName self (displayName hierarchyItem))"

text \<open>One turn of the loop over the hierarchy: the new value of \<^verbatim>\<open>baseName\<close>.\<close>

definition filenameStep :: "HtmlDocumenter \<Rightarrow> string \<Rightarrow> ApiItemData \<Rightarrow> string" where
  "filenameStep self baseName hierarchyItem =
     (case kind hierarchyItem of
        Model \<Rightarrow> baseName
      | EntryPoint \<Rightarrow> baseName
      | Package \<Rightarrow> getSafeFilenameForName self (getUnscopedName self (displayName hierarchyItem))
      | _ \<Rightarrow> baseName @ ''.'' @ qualifiedName self hierarchyItem)"

definition getFilenameForApiItem :: "HtmlDocumenter \<Rightarrow> ApiItemData list \<Rightarrow> ApiItemData \<Rightarrow> string" where
  "getFilenameForApiItem self ancestors apiItem =
     (if kind apiItem = Model then ''index.html''
      else foldl (filenameStep self) [] (getHierarchy ancestors apiItem) @ ''.html'')"

definition getLinkFilenameForApiItem :: "HtmlDocumenter \<Rightarrow> ApiItemData list \<Rightarrow> ApiItemData \<Rightarrow> string" where
  "getLinkFilenameForApiItem self ancestors apiItem =
     ''./'' @ getFilenameForApiItem self ancestors apiItem"


section \<open>Page pieces without recursion\<close>

text \<open>
  \<^verbatim>\<open>_writeBreadcrumb\<close>. The loop visits the hierarchy root first; \<open>pre\<close> holds the levels
  already passed, which are the ancestors of the level at hand.
\<close>

fun breadcrumbLoop ::
  "HtmlDocumenter \<Rightarrow> ApiItemData list \<Rightarrow> ApiItemData list \<Rightarrow> HtmlNode list \<Rightarrow> HtmlNode list" where
  "breadcrumbLoop self pre [] output = output"
| "breadcrumbLoop self pre (hierarchyItem # rest) output =
     breadcrumbLoop self (pre @ [hierarchyItem]) rest
       (case kind hierarchyItem of
          Model \<Rightarrow> output
        | EntryPoint \<Rightarrow> output
        | _ \<Rightarrow> output @
                [tag ''span'' (Str ''breadcrumb'') (Str '' / ''),
                 a (displayName hierarchyItem)
                   (getLinkFilenameForApiItem self pre hierarchyItem) (Str ''breadcrumb'')])"

definition writeBreadcrumb ::
  "HtmlDocumenter \<Rightarrow> HtmlNode list \<Rightarrow> ApiItemData list \<Rightarrow> ApiItemData \<Rightarrow> HtmlNode list" where
  "writeBreadcrumb self output ancestors apiItem =
     breadcrumbLoop self [] (getHierarchy ancestors apiItem)
       (output @ [a ''Home'' (getLinkFilenameForApiItem self [] (item_data (apiModel self)))
                    (Str ''breadcrumb'')])"

definition createTitleCell :: "HtmlDocumenter \<Rightarrow> ApiItemData list \<Rightarrow> ApiItemData \<Rightarrow> HtmlNode" where
  "createTitleCell self ancestors apiItem =
     a (getConciseSignature self apiItem)
       (getLinkFilenameForApiItem self ancestors apiItem) (Str ''ref'')"

definition createDescriptionCell :: "ApiItemData \<Rightarrow> State \<Rightarrow> error + (HtmlNode \<times> State)" where
  "createDescriptionCell apiItem s =
     (case tsdocComment apiItem of
        Some c \<Rightarrow>
          (case createDocNodes (summarySection c) s of
             Inl e \<Rightarrow> Inl e
           | Inr (hs, s') \<Rightarrow> Inr (tag ''div'' (Str ''description'') (Nodes hs), s'))
      | None \<Rightarrow> Inr (tag ''div'' (Str ''description'') (Nodes []), s))"

definition createModifiersCell :: "ApiItemData \<Rightarrow> HtmlNode" where
  "createModifiersCell apiItem =
     (case isStatic apiItem of
        Some True \<Rightarrow> tag ''code'' (Str ''modifiers'') (Str ''static'')
      | _ \<Rightarrow> tag ''div'' (Str ''modifiers'') Undefined)"

definition createPropertyTypeCell :: "ApiItemData \<Rightarrow> HtmlNode" where
  "createPropertyTypeCell apiItem =
     (case propertyTypeExcerpt apiItem of
        Some text \<Rightarrow> tag ''code'' (Str ''type'') (Str text)
      | None \<Rightarrow> tag ''code'' (Str ''type'') Undefined)"

text \<open>\<^verbatim>\<open>_writeParameterTables\<close>: the loop pushes one row per parameter.\<close>

definition writeParameterTables :: "HtmlNode list \<Rightarrow> ApiItemData \<Rightarrow> HtmlNode list" where
  "writeParameterTables output apiParameterListMixin =
     (let parametersTable =
            foldl (\<lambda>t apiParameter.
                     content_push t (tr [CellStr (name apiParameter),
                                         CellStr (parameterTypeExcerpt apiParameter)]))
                  (table [''Parameter'', ''Type'', ''Description''])
                  (parameters apiParameterListMixin)
      in if 1 < content_length parametersTable
         then output @ [tag ''h3'' (Str ''section-heading'') (Str ''Parameters''), parametersTable]
         else output)"

text \<open>\<^verbatim>\<open>_writeEnumTables\<close>: enum members get a row each and no page of their own.\<close>

fun enumMembers ::
  "HtmlDocumenter \<Rightarrow> ApiItem list \<Rightarrow> HtmlNode \<Rightarrow> State \<Rightarrow> error + (HtmlNode \<times> State)" where
  "enumMembers self [] enumMembersTable s = Inr (enumMembersTable, s)"
| "enumMembers self (apiEnumMember # rest) enumMembersTable s =
     (case createDescriptionCell (item_data apiEnumMember) s of
        Inl e \<Rightarrow> Inl e
      | Inr (description, s') \<Rightarrow>
          enumMembers self rest
            (content_push enumMembersTable
               (tr [CellStr (getConciseSignature self (item_data apiEnumMember)),
                    CellStr (initializerExcerpt (item_data apiEnumMember)),
                    CellNode description])) s')"

definition writeEnumTables ::
  "HtmlDocumenter \<Rightarrow> HtmlNode list \<Rightarrow> ApiItem list \<Rightarrow> State \<Rightarrow> error + (HtmlNode list \<times> State)" where
  "writeEnumTables self output apiEnumMembers s =
     (case enumMembers self apiEnumMembers (table [''Member'', ''Value'', ''Description'']) s of
        Inl e \<Rightarrow> Inl e
      | Inr (enumMembersTable, s') \<Rightarrow>
          Inr (if 1 < content_length enumMembersTable
               then output @ [tag ''h3'' (Str ''section-heading'') (Str ''Enumeration Members''),
                              enumMembersTable]
               else output, s'))"

text \<open>\<^verbatim>\<open>_writeRemarksSection\<close>; the example blocks are commented out in the source.\<close>

definition writeRemarksSection ::
  "HtmlNode list \<Rightarrow> ApiItemData \<Rightarrow> State \<Rightarrow> error + (HtmlNode list \<times> State)" where
  "writeRemarksSection output apiItem s =
     (case tsdocComment apiItem of
        None \<Rightarrow> Inr (output, s)
      | Some c \<Rightarrow>
          (case remarksBlock c of
             None \<Rightarrow> Inr (output, s)
           | Some nodes \<Rightarrow>
               (case createDocNodes nodes s of
                  Inl e \<Rightarrow> Inl e
                | Inr (hs, s') \<Rightarrow>
                    Inr (output @ [tag ''div'' (Str ''remarks'') (Str ''Remarks''),
                                   tag ''div'' (Nodes hs) Undefined], s'))))"

text \<open>\<^verbatim>\<open>_writeThrowsSection\<close>: its body is commented out in the source.\<close>

definition writeThrowsSection :: "HtmlNode list \<Rightarrow> ApiItemData \<Rightarrow> HtmlNode list" where
  "writeThrowsSection output apiItem = output"


section \<open>The page generator (\<^verbatim>\<open>_writeApiItemPage\<close> and the table writers)\<close>

text \<open>The first \<^verbatim>\<open>switch\<close> of \<^verbatim>\<open>_writeApiItemPage\<close>: the heading, or the fatal error.\<close>

definition writeHeading ::
  "HtmlDocumenter \<Rightarrow> HtmlNode list \<Rightarrow> ApiItemData \<Rightarrow> State \<Rightarrow> error + (HtmlNode list \<times> State)" where
  "writeHeading self output apiItem s =
     (let scopedName = scopedNameWithinPackage apiItem;
          h1 = (\<lambda>text. tag ''h1'' (Str ''page-header'') (Str text))
      in case kind apiItem of
           Class \<Rightarrow> Inr (output @ [h1 (scopedName @ '' class'')], s)
         | Enum \<Rightarrow> Inr (output @ [h1 (scopedName @ '' enum'')], s)
         | Interface \<Rightarrow> Inr (output @ [h1 (scopedName @ '' interface'')], s)
         | Constructor \<Rightarrow> Inr (output @ [h1 scopedName], s)
         | ConstructSignature \<Rightarrow> Inr (output @ [h1 scopedName], s)
         | Method \<Rightarrow> Inr (output @ [h1 (scopedName @ '' method'')], s)
         | MethodSignature \<Rightarrow> Inr (output @ [h1 (scopedName @ '' method'')], s)
         | Function \<Rightarrow> Inr (output @ [h1 (scopedName @ '' function'')], s)
         | Model \<Rightarrow> Inr (output @ [h1 (scopedName @ '' API Reference'')], s)
         | Namespace \<Rightarrow> Inr (output @ [h1 (scopedName @ '' namespace'')], s)
         | Package \<Rightarrow>
             Inr (output @ [h1 (getUnscopedName self (displayName apiItem) @ '' package'')],
                  s\<lparr>console := console s @ [''Writing '' @ displayName apiItem @ '' package'']\<rparr>)
         | Property \<Rightarrow> Inr (output @ [h1 (scopedName @ '' property'')], s)
         | PropertySignature \<Rightarrow> Inr (output @ [h1 (scopedName @ '' property'')], s)
         | TypeAlias \<Rightarrow> Inr (output @ [h1 (scopedName @ '' type'')], s)
         | Variable \<Rightarrow> Inr (output @ [h1 (scopedName @ '' variable'')], s)
         | _ \<Rightarrow> Inl (UnsupportedApiItemKind (kind apiItem)))"

text \<open>The summary block (\<^verbatim>\<open>apiItem instanceof ApiDocumentedItem\<close> with a comment).\<close>

definition writeSummary ::
  "HtmlNode list \<Rightarrow> ApiItemData \<Rightarrow> State \<Rightarrow> error + (HtmlNode list \<times> State)" where
  "writeSummary output apiItem s =
     (case tsdocComment apiItem of
        None \<Rightarrow> Inr (output, s)
      | Some c \<Rightarrow>
          (case createDocNodes (summarySection c) s of
             Inl e \<Rightarrow> Inl e
           | Inr (hs, s') \<Rightarrow> Inr (output @ [tag ''div'' (Str ''summary'') (Nodes hs)], s')))"

text \<open>The signature block (\<^verbatim>\<open>apiItem instanceof ApiDeclaredItem\<close> with a non-empty excerpt).\<close>

definition writeSignature :: "HtmlNode list \<Rightarrow> ApiItemData \<Rightarrow> HtmlNode list" where
  "writeSignature output apiItem =
     (case excerpt apiItem of
        None \<Rightarrow> output
      | Some (text, textWithModifiers) \<Rightarrow>
          if 0 < length text
          then output @ [tag ''div'' (Str ''signature-heading'') (Str ''Signature''),
                         tag ''pre'' (Str ''signature'') (Str textWithModifiers)]
          else output)"

text \<open>The kinds of the first remarks \<^verbatim>\<open>switch\<close>: for them \<^verbatim>\<open>appendRemarks\<close> becomes false.\<close>

definition remarksFirst :: "ApiItemKind \<Rightarrow> bool" where
  "remarksFirst k = (k = Class \<or> k = Interface \<or> k = Namespace \<or> k = Package)"

text \<open>
  \<^verbatim>\<open>_writeApiItemPage\<close> up to the kind-specific body: breadcrumb, heading, summary,
  signature and, for the container kinds, the remarks. (The beta warning between heading
  and summary writes nothing: the body of \<^verbatim>\<open>_writeBetaWarning\<close> is commented out.)
\<close>

definition pageStart ::
  "HtmlDocumenter \<Rightarrow> ApiItemData list \<Rightarrow> ApiItemData \<Rightarrow> State \<Rightarrow> error + (HtmlNode list \<times> State)" where
  "pageStart self ancestors apiItem s =
     (case writeHeading self (writeBreadcrumb self [] ancestors apiItem) apiItem s of
        Inl e \<Rightarrow> Inl e
      | Inr (output1, s1) \<Rightarrow>
          (case writeSummary output1 apiItem s1 of
             Inl e \<Rightarrow> Inl e
           | Inr (output2, s2) \<Rightarrow>
               if remarksFirst (kind apiItem)
               then writeRemarksSection (writeSignature output2 apiItem) apiItem s2
               else Inr (writeSignature output2 apiItem, s2)))"

text \<open>
  \<^verbatim>\<open>_writeApiItemPage\<close> after the body: the trailing remarks, then the page is assembled
  and written. \<^verbatim>\<open>FileSystem.writeFile(path.join(outputFolder, f), page, ...)\<close> is recorded
  as the pair of the derived filename \<open>f\<close> and the page; the folder and the line endings
  are the file system collaborator's business.
\<close>

definition pageFinish ::
  "HtmlDocumenter \<Rightarrow> ApiItemData list \<Rightarrow> ApiItemData \<Rightarrow> HtmlNode list \<Rightarrow> State \<Rightarrow> error + State" where
  "pageFinish self ancestors apiItem output s =
     (case (if remarksFirst (kind apiItem) then Inr (output, s)
            else writeRemarksSection output apiItem s) of
        Inl e \<Rightarrow> Inl e
      | Inr (output', s') \<Rightarrow>
          Inr (s'\<lparr>files := files s' @
                 [(getFilenameForApiItem self ancestors apiItem,
                   emit [''styles.css'']
                     [tag ''header'' (Nodes
                        [tag ''div'' (Str ''header-top'')
                           (Nodes [a [] ''https://developers.symphony.com/'' (Str ''header-logo'')]),
                         tag ''div'' (Str ''header-bottom'') (Nodes [])]) Undefined,
                      tag ''div'' (Str ''main'') (Nodes output')])]\<rparr>))"

text \<open>The tables of a class or interface page, and of a package or namespace page.\<close>

record InterfaceTables =
  eventsTable :: HtmlNode
  propertiesTable :: HtmlNode
  methodsTable :: HtmlNode

record ClassTables = InterfaceTables +
  constructorsTable :: HtmlNode

record ContainerTables =
  classesTable :: HtmlNode
  enumerationsTable :: HtmlNode
  functionsTable :: HtmlNode
  interfacesTable :: HtmlNode
  namespacesTable :: HtmlNode
  variablesTable :: HtmlNode
  typeAliasesTable :: HtmlNode

text \<open>\<^verbatim>\<open>if (t.content.length > n) { output.push(heading); output.push(t); }\<close>\<close>

definition pushSection :: "nat \<Rightarrow> string \<Rightarrow> HtmlNode \<Rightarrow> HtmlNode list \<Rightarrow> HtmlNode list" where
  "pushSection n heading t output =
     (if n < content_length t
      then output @ [tag ''h3'' (Str ''section-heading'') (Str heading), t]
      else output)"

text \<open>The closing \<^verbatim>\<open>if\<close>s of \<^verbatim>\<open>_writeClassTables\<close>, \<^verbatim>\<open>_writeInterfaceTables\<close> and
  \<^verbatim>\<open>_writePackageOrNamespaceTables\<close>, with the thresholds of the source.\<close>

definition pushClassTables :: "ClassTables \<Rightarrow> HtmlNode list \<Rightarrow> HtmlNode list" where
  "pushClassTables t output =
     pushSection 1 ''Methods'' (methodsTable t)
       (pushSection 1 ''Properties'' (propertiesTable t)
          (pushSection 1 ''Constructors'' (constructorsTable t)
             (pushSection 0 ''Events'' (eventsTable t) output)))"

definition pushInterfaceTables :: "InterfaceTables \<Rightarrow> HtmlNode list \<Rightarrow> HtmlNode list" where
  "pushInterfaceTables t output =
     pushSection 1 ''Methods'' (methodsTable t)
       (pushSection 1 ''Properties'' (propertiesTable t)
          (pushSection 1 ''Events'' (eventsTable t) output))"

definition pushContainerTables :: "ContainerTables \<Rightarrow> HtmlNode list \<Rightarrow> HtmlNode list" where
  "pushContainerTables t output =
     pushSection 1 ''Types'' (typeAliasesTable t)
       (pushSection 1 ''Variables'' (variablesTable t)
          (pushSection 1 ''Namespaces'' (namespacesTable t)
             (pushSection 1 ''Interfaces'' (interfacesTable t)
                (pushSection 1 ''Functions'' (functionsTable t)
                   (pushSection 1 ''Enumerations'' (enumerationsTable t)
                      (pushSection 1 ''Classes'' (classesTable t) output))))))"

text \<open>The fresh tables each writer starts from.\<close>

definition newClassTables :: ClassTables where
  "newClassTables =
     \<lparr> eventsTable = table [''Property'', ''Modifiers'', ''Type'', ''Description''],
       propertiesTable = table [''Property'', ''Modifiers'', ''Type'', ''Description''],
       methodsTable = table [''Method'', ''Modifiers'', ''Description''],
       constructorsTable = table [''Constructor'', ''Modifiers'', ''Description''] \<rparr>"

definition newInterfaceTables :: InterfaceTables where
  "newInterfaceTables =
     \<lparr> eventsTable = table [''Property'', ''Type'', ''Description''],
       propertiesTable = table [''Property'', ''Type'', ''Description''],
       methodsTable = table [''Method'', ''Description''] \<rparr>"

definition newContainerTables :: ContainerTables where
  "newContainerTables =
     \<lparr> classesTable = table [''Class'', ''Description''],
       enumerationsTable = table [''Enumeration'', ''Description''],
       functionsTable = table [''Function'', ''Description''],
       interfacesTable = table [''Interface'', ''Description''],
       namespacesTable = table [''Namespace'', ''Description''],
       variablesTable = table [''Variable'', ''Description''],
       typeAliasesTable = table [''Type Alias'', ''Description''] \<rparr>"

text \<open>
  One turn of each member loop, up to the recursive page: the row is built and pushed
  on the table its \<^verbatim>\<open>switch\<close> case names. The boolean tells whether the case also calls
  \<^verbatim>\<open>_writeApiItemPage\<close> for the member; a member kind without a case is passed over.
\<close>

definition modelMemberRow ::
  "HtmlDocumenter \<Rightarrow> ApiItemData list \<Rightarrow> ApiItemData \<Rightarrow> HtmlNode \<Rightarrow> State
     \<Rightarrow> error + (HtmlNode \<times> State \<times> bool)" where
  "modelMemberRow self hierarchy apiMember packagesTable s =
     (case createDescriptionCell apiMember s of
        Inl e \<Rightarrow> Inl e
      | Inr (description, s') \<Rightarrow>
          (let row = tr [CellNode (createTitleCell self hierarchy apiMember), CellNode description]
           in case kind apiMember of
                Package \<Rightarrow> Inr (content_push packagesTable row, s', True)
              | _ \<Rightarrow> Inr (packagesTable, s', False)))"

definition containerMemberRow ::
  "HtmlDocumenter \<Rightarrow> ApiItemData list \<Rightarrow> ApiItemData \<Rightarrow> ContainerTables \<Rightarrow> State
     \<Rightarrow> error + (ContainerTables \<times> State \<times> bool)" where
  "containerMemberRow self hierarchy apiMember t s =
     (case createDescriptionCell apiMember s of
        Inl e \<Rightarrow> Inl e
      | Inr (description, s') \<Rightarrow>
          (let row = tr [CellNode (createTitleCell self hierarchy apiMember), CellNode description]
           in case kind apiMember of
                Class \<Rightarrow> Inr (t\<lparr>classesTable := content_push (classesTable t) row\<rparr>, s', True)
              | Enum \<Rightarrow>
                  Inr (t\<lparr>enumerationsTable := content_push (enumerationsTable t) row\<rparr>, s', True)
              | Interface \<Rightarrow>
                  Inr (t\<lparr>interfacesTable := content_push (interfacesTable t) row\<rparr>, s', True)
              | Namespace \<Rightarrow>
                  Inr (t\<lparr>namespacesTable := content_push (namespacesTable t) row\<rparr>, s', True)
              | Function \<Rightarrow>
                  Inr (t\<lparr>functionsTable := content_push (functionsTable t) row\<rparr>, s', True)
              | TypeAlias \<Rightarrow>
                  Inr (t\<lparr>typeAliasesTable := content_push (typeAliasesTable t) row\<rparr>, s', True)
              | Variable \<Rightarrow>
                  Inr (t\<lparr>variablesTable := content_push (variablesTable t) row\<rparr>, s', True)
              | _ \<Rightarrow> Inr (t, s', False)))"

definition classMemberRow ::
  "HtmlDocumenter \<Rightarrow> ApiItemData list \<Rightarrow> ApiItemData \<Rightarrow> ClassTables \<Rightarrow> State
     \<Rightarrow> error + (ClassTables \<times> State \<times> bool)" where
  "classMemberRow self hierarchy apiMember t s =
     (case kind apiMember of
        Constructor \<Rightarrow>
          (case createDescriptionCell apiMember s of
             Inl e \<Rightarrow> Inl e
           | Inr (description, s') \<Rightarrow>
               Inr (t\<lparr>constructorsTable := content_push (constructorsTable t)
                        (tr [CellNode (createTitleCell self hierarchy apiMember),
                             CellNode (createModifiersCell apiMember),
                             CellNode description])\<rparr>, s', True))
      | Method \<Rightarrow>
          (case createDescriptionCell apiMember s of
             Inl e \<Rightarrow> Inl e
           | Inr (description, s') \<Rightarrow>
               Inr (t\<lparr>methodsTable := content_push (methodsTable t)
                        (tr [CellNode (createTitleCell self hierarchy apiMember),
                             CellNode (createModifiersCell apiMember),
                             CellNode description])\<rparr>, s', True))
      | Property \<Rightarrow>
          (case createDescriptionCell apiMember s of
             Inl e \<Rightarrow> Inl e
           | Inr (description, s') \<Rightarrow>
               (let row = tr [CellNode (createTitleCell self hierarchy apiMember),
                              CellNode (createModifiersCell apiMember),
                              CellNode (createPropertyTypeCell apiMember),
                              CellNode description]
                in if isEventProperty apiMember
                   then Inr (t\<lparr>eventsTable := content_push (eventsTable t) row\<rparr>, s', True)
                   else Inr (t\<lparr>propertiesTable := content_push (propertiesTable t) row\<rparr>,
                             s', True)))
      | _ \<Rightarrow> Inr (t, s, False))"

definition interfaceMemberRow ::
  "HtmlDocumenter \<Rightarrow> ApiItemData list \<Rightarrow> ApiItemData \<Rightarrow> InterfaceTables \<Rightarrow> State
     \<Rightarrow> error + (InterfaceTables \<times> State \<times> bool)" where
  "interfaceMemberRow self hierarchy apiMember t s =
     (if kind apiMember = ConstructSignature \<or> kind apiMember = MethodSignature then
        (case createDescriptionCell apiMember s of
           Inl e \<Rightarrow> Inl e
         | Inr (description, s') \<Rightarrow>
             Inr (t\<lparr>methodsTable := content_push (methodsTable t)
                      (tr [CellNode (createTitleCell self hierarchy apiMember),
                           CellNode description])\<rparr>, s', True))
      else if kind apiMember = PropertySignature then
        (case createDescriptionCell apiMember s of
           Inl e \<Rightarrow> Inl e
         | Inr (description, s') \<Rightarrow>
             (let row = tr [CellNode (createTitleCell self hierarchy apiMember),
                            CellNode (createPropertyTypeCell apiMember),
                            CellNode description]
              in if isEventProperty apiMember
                 then Inr (t\<lparr>eventsTable := content_push (eventsTable t) row\<rparr>, s', True)
                 else Inr (t\<lparr>propertiesTable := content_push (propertiesTable t) row\<rparr>,
                           s', True)))
      else Inr (t, s, False))"

text \<open>
  The second \<^verbatim>\<open>switch\<close> of \<^verbatim>\<open>_writeApiItemPage\<close> (the kind-specific body) for the kinds
  whose body visits no member page: the enum table, the parameter table and throws
  section of the function-like kinds, the empty bodies, and the fatal default. The cases
  \<open>Class\<close>, \<open>Interface\<close>, \<open>Namespace\<close>, \<open>Package\<close> and \<open>Model\<close> of this \<^verbatim>\<open>switch\<close> are
  in \<open>writeApiItemPage\<close> below, which comes here for every other kind.
\<close>

definition writeOtherBody ::
  "HtmlDocumenter \<Rightarrow> HtmlNode list \<Rightarrow> ApiItemData \<Rightarrow> ApiItem list \<Rightarrow> State
     \<Rightarrow> error + (HtmlNode list \<times> State)" where
  "writeOtherBody self output apiItem ms s =
     (case kind apiItem of
        Enum \<Rightarrow> writeEnumTables self output ms s
      | Constructor \<Rightarrow> Inr (writeThrowsSection (writeParameterTables output apiItem) apiItem, s)
      | ConstructSignature \<Rightarrow>
          Inr (writeThrowsSection (writeParameterTables output apiItem) apiItem, s)
      | Method \<Rightarrow> Inr (writeThrowsSection (writeParameterTables output apiItem) apiItem, s)
      | MethodSignature \<Rightarrow>
          Inr (writeThrowsSection (writeParameterTables output apiItem) apiItem, s)
      | Function \<Rightarrow> Inr (writeThrowsSection (writeParameterTables output apiItem) apiItem, s)
      | Property \<Rightarrow> Inr (output, s)
      | PropertySignature \<Rightarrow> Inr (output, s)
      | TypeAlias \<Rightarrow> Inr (output, s)
      | Variable \<Rightarrow> Inr (output, s)
      | _ \<Rightarrow> Inl (UnsupportedApiItemKind (kind apiItem)))"

text \<open>
  The recursion of the generator. \<open>hierarchy\<close> is the hierarchy of the item whose members a
  loop visits, hence the ancestors of each member. A package lists the members of its
  first entry point (\<^verbatim>\<open>entryPoints[0].members\<close>; the entry points of a package are its
  members); reading \<^verbatim>\<open>.members\<close> of a missing entry point is a \<^verbatim>\<open>TypeError\<close>. Nothing
  catches an error, so every caller passes it on.
\<close>

function writeApiItemPage :: "HtmlDocumenter \<Rightarrow> ApiItemData list \<Rightarrow> ApiItem \<Rightarrow> State \<Rightarrow> error + State"
and writeModelTable ::
  "HtmlDocumenter \<Rightarrow> ApiItemData list \<Rightarrow> HtmlNode list \<Rightarrow> ApiItem list \<Rightarrow> State
     \<Rightarrow> error + (HtmlNode list \<times> State)"
and modelMembers ::
  "HtmlDocumenter \<Rightarrow> ApiItemData list \<Rightarrow> ApiItem list \<Rightarrow> HtmlNode \<Rightarrow> State
     \<Rightarrow> error + (HtmlNode \<times> State)"
and writePackageOrNamespaceTables ::
  "HtmlDocumenter \<Rightarrow> ApiItemData list \<Rightarrow> HtmlNode list \<Rightarrow> ApiItemKind \<Rightarrow> ApiItem list \<Rightarrow> State
     \<Rightarrow> error + (HtmlNode list \<times> State)"
and containerMembers ::
  "HtmlDocumenter \<Rightarrow> ApiItemData list \<Rightarrow> ApiItem list \<Rightarrow> ContainerTables \<Rightarrow> State
     \<Rightarrow> error + (ContainerTables \<times> State)"
and writeClassTables ::
  "HtmlDocumenter \<Rightarrow> ApiItemData list \<Rightarrow> HtmlNode list \<Rightarrow> ApiItem list \<Rightarrow> State
     \<Rightarrow> error + (HtmlNode list \<times> State)"
and classMembers ::
  "HtmlDocumenter \<Rightarrow> ApiItemData list \<Rightarrow> ApiItem list \<Rightarrow> ClassTables \<Rightarrow> State
     \<Rightarrow> error + (ClassTables \<times> State)"
and writeInterfaceTables ::
  "HtmlDocumenter \<Rightarrow> ApiItemData list \<Rightarrow> HtmlNode list \<Rightarrow> ApiItem list \<Rightarrow> State
     \<Rightarrow> error + (HtmlNode list \<times> State)"
and interfaceMembers ::
  "HtmlDocumenter \<Rightarrow> ApiItemData list \<Rightarrow> ApiItem list \<Rightarrow> InterfaceTables \<Rightarrow> State
     \<Rightarrow> error + (InterfaceTables \<times> State)"
where
  "writeApiItemPage self ancestors (ApiItem apiItem ms) s =
     (case pageStart self ancestors apiItem s of
        Inl e \<Rightarrow> Inl e
      | Inr (output, s1) \<Rightarrow>
          (case (if kind apiItem = Class
                 then writeClassTables self (ancestors @ [apiItem]) output ms s1
                 else if kind apiItem = Interface
                 then writeInterfaceTables self (ancestors @ [apiItem]) output ms s1
                 else if kind apiItem = Namespace \<or> kind apiItem = Package
                 then writePackageOrNamespaceTables self (ancestors @ [apiItem]) output
                        (kind apiItem) ms s1
                 else if kind apiItem = Model
                 then writeModelTable self (ancestors @ [apiItem]) output ms s1
                 else writeOtherBody self output apiItem ms s1) of
             Inl e \<Rightarrow> Inl e
           | Inr (output', s2) \<Rightarrow> pageFinish self ancestors apiItem output' s2))"
| "writeModelTable self hierarchy output ms s =
     (case modelMembers self hierarchy ms (table [''Package'', ''Description'']) s of
        Inl e \<Rightarrow> Inl e
      | Inr (packagesTable, s') \<Rightarrow> Inr (pushSection 0 ''Packages'' packagesTable output, s'))"
| "modelMembers self hierarchy [] packagesTable s = Inr (packagesTable, s)"
| "modelMembers self hierarchy (apiMember # rest) packagesTable s =
     (case modelMemberRow self hierarchy (item_data apiMember) packagesTable s of
        Inl e \<Rightarrow> Inl e
      | Inr (packagesTable', s1, page) \<Rightarrow>
          if page
          then (case writeApiItemPage self hierarchy apiMember s1 of
                  Inl e \<Rightarrow> Inl e
                | Inr s2 \<Rightarrow> modelMembers self hierarchy rest packagesTable' s2)
          else modelMembers self hierarchy rest packagesTable' s1)"
| "writePackageOrNamespaceTables self hierarchy output k ms s =
     (case (if k = Package
            then (case ms of
                    [] \<Rightarrow> Inl (TypeError ''Cannot read property 'members' of undefined'')
                  | ApiItem entryPoint apiMembers # _ \<Rightarrow>
                      containerMembers self (hierarchy @ [entryPoint]) apiMembers
                        newContainerTables s)
            else containerMembers self hierarchy ms newContainerTables s) of
        Inl e \<Rightarrow> Inl e
      | Inr (t, s') \<Rightarrow> Inr (pushContainerTables t output, s'))"
| "containerMembers self hierarchy [] t s = Inr (t, s)"
| "containerMembers self hierarchy (apiMember # rest) t s =
     (case containerMemberRow self hierarchy (item_data apiMember) t s of
        Inl e \<Rightarrow> Inl e
      | Inr (t', s1, page) \<Rightarrow>
          if page
          then (case writeApiItemPage self hierarchy apiMember s1 of
                  Inl e \<Rightarrow> Inl e
                | Inr s2 \<Rightarrow> containerMembers self hierarchy rest t' s2)
          else containerMembers self hierarchy rest t' s1)"
| "writeClassTables self hierarchy output ms s =
     (case classMembers self hierarchy ms newClassTables s of
        Inl e \<Rightarrow> Inl e
      | Inr (t, s') \<Rightarrow> Inr (pushClassTables t output, s'))"
| "classMembers self hierarchy [] t s = Inr (t, s)"
| "classMembers self hierarchy (apiMember # rest) t s =
     (case classMemberRow self hierarchy (item_data apiMember) t s of
        Inl e \<Rightarrow> Inl e
      | Inr (t', s1, page) \<Rightarrow>
          if page
          then (case writeApiItemPage self hierarchy apiMember s1 of
                  Inl e \<Rightarrow> Inl e
                | Inr s2 \<Rightarrow> classMembers self hierarchy rest t' s2)
          else classMembers self hierarchy rest t' s1)"
| "writeInterfaceTables self hierarchy output ms s =
     (case interfaceMembers self hierarchy ms newInterfaceTables s of
        Inl e \<Rightarrow> Inl e
      | Inr (t, s') \<Rightarrow> Inr (pushInterfaceTables t output, s'))"
| "interfaceMembers self hierarchy [] t s = Inr (t, s)"
| "interfaceMembers self hierarchy (apiMember # rest) t s =
     (case interfaceMemberRow self hierarchy (item_data apiMember) t s of
        Inl e \<Rightarrow> Inl e
      | Inr (t', s1, page) \<Rightarrow>
          if page
          then (case writeApiItemPage self hierarchy apiMember s1 of
                  Inl e \<Rightarrow> Inl e
                | Inr s2 \<Rightarrow> interfaceMembers self hierarchy rest t' s2)
          else interfaceMembers self hierarchy rest t' s1)"
  by pat_completeness auto
termination
  apply (relation "measure (\<lambda>x. case x of
      Inl (Inl (Inl (self, anc, node, s))) \<Rightarrow> 3 * size node
    | Inl (Inl (Inr (self, h, out, ms, s))) \<Rightarrow> 3 * size_list size ms + 1
    | Inl (Inr (Inl (self, h, ms, t, s))) \<Rightarrow> 3 * size_list size ms
    | Inl (Inr (Inr (self, h, out, k, ms, s))) \<Rightarrow> 3 * size_list size ms + 2
    | Inr (Inl (Inl (self, h, ms, t, s))) \<Rightarrow> 3 * size_list size ms
    | Inr (Inl (Inr (self, h, out, ms, s))) \<Rightarrow> 3 * size_list size ms + 1
    | Inr (Inr (Inl (self, h, ms, t, s))) \<Rightarrow> 3 * size_list size ms
    | Inr (Inr (Inr (Inl (self, h, out, ms, s)))) \<Rightarrow> 3 * size_list size ms + 1
    | Inr (Inr (Inr (Inr (self, h, ms, t, s)))) \<Rightarrow> 3 * size_list size ms)")
  apply simp_all
  done

text \<open>
  \<^verbatim>\<open>generateFiles(outputFolder)\<close> as the command line action runs it, without a
  documenter configuration (so no plugin is loaded): the blank console line, the notice
  of \<^verbatim>\<open>_deleteOldOutputFiles\<close>, then the page of the model and, through it, all others.
  Emptying the folder and copying the stylesheet are the file system collaborator's.
\<close>

definition generateFiles :: "HtmlDocumenter \<Rightarrow> string \<Rightarrow> error + State" where
  "generateFiles self outputFolder =
     writeApiItemPage self [] (apiModel self)
       \<lparr> console = [[], ''Deleting old output from '' @ outputFolder], files = [] \<rparr>"


section \<open>Example inputs\<close>

text \<open>
  Modelled from the spec: \<^verbatim>\<open>Utilities.getSafeFilenameForName\<close> is not among the sources.
  The spec only calls its result the filesystem-safe form of a name; this model replaces
  every character other than a letter, a digit, \<^verbatim>\<open>_\<close>, \<^verbatim>\<open>-\<close> or \<^verbatim>\<open>.\<close> by \<^verbatim>\<open>_\<close>. The general
  theorems below hold for every helper; the model serves to run them on examples.
\<close>

definition safeName :: "string \<Rightarrow> string" where
  "safeName s =
     map (\<lambda>c. if c \<in> set ''abcdefghijklmnopqrstuvwxyzABCDEFGHIJKLMNOPQRSTUVWXYZ0123456789_-.''
              then c else CHR ''_'') s"

text \<open>
  Modelled from the spec: \<^verbatim>\<open>PackageName.getUnscopedName\<close> belongs to an external library.
  The spec describes it as stripping any publisher/organization scope prefix:
  \<^verbatim>\<open>@scope/name\<close> becomes \<^verbatim>\<open>name\<close>, a name without scope stays.
\<close>

definition unscopedName :: "string \<Rightarrow> string" where
  "unscopedName s =
     (if take 1 s = ''@'' \<and> CHR ''/'' \<in> set s
      then tl (dropWhile (\<lambda>c. c \<noteq> CHR ''/'') s) else s)"

text \<open>An item of a kind and name with no mixin, comment or excerpt.\<close>

definition item :: "ApiItemKind \<Rightarrow> string \<Rightarrow> ApiItemData" where
  "item k n =
     \<lparr> kind = k, displayName = n, scopedNameWithinPackage = n, overloadIndex = None,
       parameters = [], isStatic = None, isEventProperty = False, propertyTypeExcerpt = None,
       tsdocComment = None, excerpt = None, initializerExcerpt = [] \<rparr>"

text \<open>A documenter over a model, with the helper models above; the concise signature
  of an item is taken to be its display name.\<close>

definition documenter :: "ApiItem \<Rightarrow> HtmlDocumenter" where
  "documenter m =
     \<lparr> apiModel = m, getSafeFilenameForName = safeName,
       getUnscopedName = unscopedName, getConciseSignature = displayName \<rparr>"

definition emptyState :: State where
  "emptyState = \<lparr> console = [], files = [] \<rparr>"

text \<open>A method \<^verbatim>\<open>doThing(x: number)\<close>.\<close>

definition methodWithX :: ApiItemData where
  "methodWithX = (item Method ''doThing'')
     \<lparr> overloadIndex := Some 1,
       parameters := [\<lparr> name = ''x'', parameterTypeExcerpt = ''number'' \<rparr>] \<rparr>"

text \<open>The path to the members of the package \<^verbatim>\<open>@scope/widgets\<close>: model, package, entry point.\<close>

definition widgetsPath :: "ApiItemData list" where
  "widgetsPath = [item Model [], item Package ''@scope/widgets'', item EntryPoint []]"

text \<open>An item with a parameter list: overload \<open>i\<close> of the name \<open>n\<close>.\<close>

definition overload :: "ApiItemKind \<Rightarrow> string \<Rightarrow> nat \<Rightarrow> ApiItemData" where
  "overload k n i = (item k n)\<lparr>overloadIndex := Some i\<rparr>"

text \<open>The path to the members of a class in a namespace of that package.\<close>

definition nestedPath :: "ApiItemData list" where
  "nestedPath = widgetsPath @ [item Namespace ''shapes'', item Class ''widget'']"

text \<open>A package whose entry point declares a class and a namespace of the same name
  (declaration merging).\<close>

definition clashModel :: ApiItem where
  "clashModel = ApiItem (item Model [])
     [ApiItem (item Package ''@scope/widgets'')
        [ApiItem (item EntryPoint [])
           [ApiItem (item Class ''foo'') [],
            ApiItem (item Namespace ''foo'') []]]]"

text \<open>A package with an enum of one member and an interface that has a call signature
  and a method.\<close>

definition skipModel :: ApiItem where
  "skipModel = ApiItem (item Model [])
     [ApiItem (item Package ''@scope/widgets'')
        [ApiItem (item EntryPoint [])
           [ApiItem (item Enum ''color'')
              [ApiItem (item EnumMember ''red'') []],
            ApiItem (item Interface ''shape'')
              [ApiItem (item CallSignature ''(call)'') [],
               ApiItem (overload MethodSignature ''area'' 1) []]]]]"

text \<open>A variable whose summary holds a node of a kind the renderer has no rule for.\<close>

definition escapedSummary :: ApiItemData where
  "escapedSummary = (item Variable ''limit'')
     \<lparr> tsdocComment := Some \<lparr> summarySection =
         [DocParagraph [DocPlainText ''at most'', DocOther ''EscapedText'']],
         remarksBlock = None \<rparr> \<rparr>"

text \<open>A package with that variable and a class.\<close>

definition failModel :: ApiItem where
  "failModel = ApiItem (item Model [])
     [ApiItem (item Package ''@scope/widgets'')
        [ApiItem (item EntryPoint [])
           [ApiItem escapedSummary [],
            ApiItem (item Class ''widget'') [ApiItem (item Property ''size'') []]]]]"


section \<open>Vocabulary of the properties\<close>

text \<open>A doc node that the renderer has no rule for occurs in a sequence, at the top or
  inside paragraphs.\<close>

fun unsupportedNode :: "DocNode \<Rightarrow> bool"
and unsupportedNodes :: "DocNode list \<Rightarrow> bool" where
  "unsupportedNode (DocOther k) = True"
| "unsupportedNode (DocParagraph ns) = unsupportedNodes ns"
| "unsupportedNode n = False"
| "unsupportedNodes [] = False"
| "unsupportedNodes (n # ns) = (unsupportedNode n \<or> unsupportedNodes ns)"

text \<open>Whether a result is an error, and which; for a row also whether a page follows.\<close>

definition outcome :: "error + 'a \<Rightarrow> error option" where
  "outcome r = (case r of Inl e \<Rightarrow> Some e | Inr x \<Rightarrow> None)"

definition rowOutcome :: "error + ('t \<times> State \<times> bool) \<Rightarrow> error + bool" where
  "rowOutcome r = (case r of Inl e \<Rightarrow> Inl e | Inr (t, s, page) \<Rightarrow> Inr page)"

text \<open>
  The pages of a run, read off the \<^verbatim>\<open>switch\<close> cases of the member loops: \<open>routed c k\<close>
  holds when the loop of a container of kind \<open>c\<close> calls \<^verbatim>\<open>_writeApiItemPage\<close> for a
  member of kind \<open>k\<close> (a package and a namespace share one loop); \<open>memberPages\<close> lists
  these members of an item, each with its hierarchy, and \<open>allPages\<close> lists the item and
  everything below it that is reached this way.
\<close>

definition routed :: "ApiItemKind \<Rightarrow> ApiItemKind \<Rightarrow> bool" where
  "routed container k =
     (if container = Class then k = Constructor \<or> k = Method \<or> k = Property
      else if container = Interface
      then k = ConstructSignature \<or> k = MethodSignature \<or> k = PropertySignature
      else if container = Namespace \<or> container = Package
      then k = Class \<or> k = Enum \<or> k = Interface \<or> k = Namespace \<or> k = Function \<or>
           k = TypeAlias \<or> k = Variable
      else container = Model \<and> k = Package)"

fun memberPages :: "ApiItemData list \<Rightarrow> ApiItem \<Rightarrow> (ApiItemData list \<times> ApiItem) list" where
  "memberPages ancestors (ApiItem apiItem ms) =
     (if kind apiItem = Package
      then (case ms of
              [] \<Rightarrow> []
            | ApiItem entryPoint apiMembers # _ \<Rightarrow>
                map (Pair (ancestors @ [apiItem, entryPoint]))
                  (filter (\<lambda>m. routed Package (kind (item_data m))) apiMembers))
      else map (Pair (ancestors @ [apiItem]))
             (filter (\<lambda>m. routed (kind apiItem) (kind (item_data m))) ms))"

function allPages :: "ApiItemData list \<Rightarrow> ApiItem \<Rightarrow> (ApiItemData list \<times> ApiItem) list" where
  "allPages ancestors apiItem =
     (ancestors, apiItem) #
     concat (map (\<lambda>(h, m). allPages h m) (memberPages ancestors apiItem))"
  by pat_completeness auto
termination
proof (relation "measure (\<lambda>(ancestors, apiItem). size apiItem)")
  show "wf (measure (\<lambda>(ancestors, apiItem). size apiItem))" by simp
next
  fix ancestors :: "ApiItemData list" and apiItem x h m
  assume x: "x \<in> set (memberPages ancestors apiItem)" and hm: "(h, m) = x"
  have le: "\<And>xs. m \<in> set xs \<Longrightarrow> size m \<le> size_list size xs"
  proof -
    fix xs show "m \<in> set xs \<Longrightarrow> size m \<le> size_list size xs"
      by (induction xs) auto
  qed
  obtain d ms where node: "apiItem = ApiItem d ms" by (cases apiItem)
  have "size m < size apiItem"
  proof (cases "kind d = Package")
    case True
    with x hm node obtain epd epms rest where
      ms: "ms = ApiItem epd epms # rest" and mm: "m \<in> set epms"
      by (auto split: list.splits ApiItem.splits)
    from le [OF mm] ms node show ?thesis by simp
  next
    case False
    with x hm node have "m \<in> set ms" by auto
    from le [OF this] node show ?thesis by simp
  qed
  then show "((h, m), ancestors, apiItem) \<in> measure (\<lambda>(ancestors, apiItem). size apiItem)"
    by simp
qed

declare allPages.simps [simp del]

text \<open>Reading decimal digits back, the inverse of \<open>string_of_nat\<close>.\<close>

definition nat_of_string :: "string \<Rightarrow> nat" where
  "nat_of_string cs = foldl (\<lambda>acc c. 10 * acc + (of_char c - 48)) 0 cs"

text \<open>The visible text of each node of a sequence (empty for a node without text).\<close>

definition texts :: "HtmlNode list \<Rightarrow> string list" where
  "texts ns = map (\<lambda>n. case content n of Str t \<Rightarrow> t | _ \<Rightarrow> []) ns"


section \<open>The builder on the argument shapes the documenter uses\<close>

lemma tag_text [simp]: "tag ty (Str c) Undefined = HtmlNode ty None (Str c)"
  by (simp add: tag_def tag_private_def)

lemma tag_block [simp]: "tag ty (Nodes ns) Undefined = HtmlNode ty None (Nodes ns)"
  by (simp add: tag_def tag_private_def)

lemma tag_class_block [simp]:
  "c \<noteq> [] \<Longrightarrow> tag ty (Str c) (Nodes ns) = HtmlNode ty (Some [(''class'', Str c)]) (Nodes ns)"
  by (simp add: tag_def tag_private_def)

lemma tag_class_text [simp]:
  "c \<noteq> [] \<Longrightarrow> t \<noteq> [] \<Longrightarrow> tag ty (Str c) (Str t) = HtmlNode ty (Some [(''class'', Str c)]) (Str t)"
  by (simp add: tag_def tag_private_def)

lemma foldl_content_push:
  "foldl (\<lambda>t p. content_push t (f p)) (HtmlNode ty attrs (Nodes ns)) ps =
     HtmlNode ty attrs (Nodes (ns @ map f ps))"
  by (induction ps arbitrary: ns) simp_all

lemma table_eq:
  "table headings =
     HtmlNode ''table'' None (Nodes [HtmlNode ''thead'' None (Nodes [HtmlNode ''tr'' None
       (Nodes (map (\<lambda>h. HtmlNode ''th'' None (Str h)) headings))])])"
  by (simp add: table_def)

lemma content_length_table [simp]: "content_length (table headings) = 1"
  by (simp add: table_eq)


section \<open>The doc-comment renderer: order, soft breaks, links\<close>




lemma createDocNodes_Nil [simp]: "createDocNodes [] s = Inr ([], s)"
  by (simp add: map_filter_def)









section \<open>Cells and tables\<close>

text \<open>
  Claim C10. For an item that is not static the modifiers cell, and for an item that is
  not a property item the type cell, is built by the two-argument call of \<^verbatim>\<open>tag\<close>: a node
  without class attribute whose text is the word \<^verbatim>\<open>modifiers\<close>, respectively \<^verbatim>\<open>type\<close>.
\<close>

theorem modifiers_and_type_cells_show_class_name_as_text:
  "(isStatic apiItem \<noteq> Some True \<longrightarrow>
      createModifiersCell apiItem = tag ''div'' (Str ''modifiers'') Undefined \<and>
      createModifiersCell apiItem = HtmlNode ''div'' None (Str ''modifiers'')) \<and>
   (propertyTypeExcerpt apiItem = None \<longrightarrow>
      createPropertyTypeCell apiItem = tag ''code'' (Str ''type'') Undefined \<and>
      createPropertyTypeCell apiItem = HtmlNode ''code'' None (Str ''type''))"
  by (auto simp: createModifiersCell_def createPropertyTypeCell_def split: option.splits bool.splits)

theorem modifiers_and_type_cells_witness:
  "isStatic (item Method ''area'') \<noteq> Some True \<and>
   propertyTypeExcerpt (item Method ''area'') = None \<and>
   createModifiersCell (item Method ''area'') = HtmlNode ''div'' None (Str ''modifiers'') \<and>
   createPropertyTypeCell (item Method ''area'') = HtmlNode ''code'' None (Str ''type'')"
  using modifiers_and_type_cells_show_class_name_as_text [of "item Method ''area''"]
  by (simp add: item_def)


text \<open>
  Claim C6, as amended. The parameter table is written exactly when the item has a
  parameter; it then follows the heading \<^verbatim>\<open>Parameters\<close>, its header row names Parameter,
  Type and Description, and it holds one row per parameter, in order, with the two cells
  name and type text. For the function-like kinds this table is the body of the page.
\<close>

theorem parameter_table_rows:
  "writeParameterTables output apiItem =
     (if parameters apiItem = [] then output
      else output @
        [HtmlNode ''h3'' (Some [(''class'', Str ''section-heading'')]) (Str ''Parameters''),
         HtmlNode ''table'' None (Nodes
           (HtmlNode ''thead'' None (Nodes [HtmlNode ''tr'' None (Nodes
              [HtmlNode ''th'' None (Str ''Parameter''),
               HtmlNode ''th'' None (Str ''Type''),
               HtmlNode ''th'' None (Str ''Description'')])])
            # map (\<lambda>p. HtmlNode ''tr'' None (Nodes
                           [HtmlNode ''td'' None (Str (name p)),
                            HtmlNode ''td'' None (Str (parameterTypeExcerpt p))]))
                  (parameters apiItem)))]) \<and>
   (kind apiItem \<in> {Constructor, ConstructSignature, Method, MethodSignature, Function} \<longrightarrow>
      writeOtherBody self output apiItem ms s = Inr (writeParameterTables output apiItem, s))"
proof
  show "writeParameterTables output apiItem =
     (if parameters apiItem = [] then output
      else output @
        [HtmlNode ''h3'' (Some [(''class'', Str ''section-heading'')]) (Str ''Parameters''),
         HtmlNode ''table'' None (Nodes
           (HtmlNode ''thead'' None (Nodes [HtmlNode ''tr'' None (Nodes
              [HtmlNode ''th'' None (Str ''Parameter''),
               HtmlNode ''th'' None (Str ''Type''),
               HtmlNode ''th'' None (Str ''Description'')])])
            # map (\<lambda>p. HtmlNode ''tr'' None (Nodes
                           [HtmlNode ''td'' None (Str (name p)),
                            HtmlNode ''td'' None (Str (parameterTypeExcerpt p))]))
                  (parameters apiItem)))])"
    by (simp add: writeParameterTables_def table_eq foldl_content_push tr_def)
  show "kind apiItem \<in> {Constructor, ConstructSignature, Method, MethodSignature, Function} \<longrightarrow>
      writeOtherBody self output apiItem ms s = Inr (writeParameterTables output apiItem, s)"
    by (auto simp: writeOtherBody_def writeThrowsSection_def)
qed

theorem parameter_table_columns_counterexample:
  "writeParameterTables [] methodWithX \<noteq>
     [tag ''h3'' (Str ''section-heading'') (Str ''Parameters''),
      content_push (table [''Parameter'', ''Type'']) (tr [CellStr ''x'', CellStr ''number''])] \<and>
   writeParameterTables [] ((item Function ''now'')\<lparr>overloadIndex := Some 1\<rparr>) = []"
  by (simp add: writeParameterTables_def table_eq tr_def methodWithX_def item_def)

theorem parameter_table_rows_witness:
  "kind methodWithX \<in> {Constructor, ConstructSignature, Method, MethodSignature, Function} \<and>
   writeOtherBody (documenter (ApiItem (item Model []) [])) [] methodWithX [] emptyState =
     Inr ([HtmlNode ''h3'' (Some [(''class'', Str ''section-heading'')]) (Str ''Parameters''),
           HtmlNode ''table'' None (Nodes
             [HtmlNode ''thead'' None (Nodes [HtmlNode ''tr'' None (Nodes
                [HtmlNode ''th'' None (Str ''Parameter''),
                 HtmlNode ''th'' None (Str ''Type''),
                 HtmlNode ''th'' None (Str ''Description'')])]),
              HtmlNode ''tr'' None (Nodes
                [HtmlNode ''td'' None (Str ''x''), HtmlNode ''td'' None (Str ''number'')])])],
          emptyState)"
  using parameter_table_rows
          [of "[]" methodWithX "documenter (ApiItem (item Model []) [])" "[]" emptyState]
  by (simp add: methodWithX_def item_def)


lemma classMemberRow_constructorsTable:
  "kind d \<noteq> Constructor \<Longrightarrow> classMemberRow self h d t s = Inr (t1, s1, page) \<Longrightarrow>
     constructorsTable t1 = constructorsTable t"
  by (cases "kind d")
     (auto simp: classMemberRow_def Let_def split: sum.splits prod.splits if_splits)

lemma classMembers_constructorsTable:
  "\<forall>m\<in>set ms. kind (item_data m) \<noteq> Constructor \<Longrightarrow>
     classMembers self h ms t s = Inr (t', s') \<Longrightarrow> constructorsTable t' = constructorsTable t"
proof (induction ms arbitrary: t s)
  case Nil
  then show ?case by simp
next
  case (Cons m ms)
  from Cons.prems(2) obtain t1 s1 page where
    r: "classMemberRow self h (item_data m) t s = Inr (t1, s1, page)"
    by (auto split: sum.splits prod.splits)
  from Cons.prems(1) have k: "kind (item_data m) \<noteq> Constructor"
    and rest: "\<forall>m\<in>set ms. kind (item_data m) \<noteq> Constructor" by simp_all
  from Cons.prems(2) r obtain s2 where "classMembers self h ms t1 s2 = Inr (t', s')"
    by (auto split: sum.splits prod.splits if_splits)
  from Cons.IH [OF rest this] classMemberRow_constructorsTable [OF k r]
  show ?case by simp
qed

text \<open>
  Claim C5. For a class without members the page carries the heading \<^verbatim>\<open>Events\<close> and an
  events table of the header row alone (the threshold \<^verbatim>\<open>> 0\<close> always holds, since a fresh
  table already contains its \<^verbatim>\<open>thead\<close>), while no other class table is written; an
  interface without members gets no table at all. For a class without constructors the
  tables written are at most those of the events, the properties and the methods: there
  is no constructors heading and no constructors table.
\<close>

theorem class_table_thresholds:
  "writeClassTables self hierarchy output [] s =
     Inr (output @
            [HtmlNode ''h3'' (Some [(''class'', Str ''section-heading'')]) (Str ''Events''),
             table [''Property'', ''Modifiers'', ''Type'', ''Description'']], s) \<and>
   writeInterfaceTables self hierarchy output [] s = Inr (output, s) \<and>
   ((\<forall>m\<in>set ms. kind (item_data m) \<noteq> Constructor) \<and>
    writeClassTables self hierarchy output ms s = Inr (output', s') \<longrightarrow>
      (\<exists>t :: ClassTables. output' =
         pushSection 1 ''Methods'' (methodsTable t)
           (pushSection 1 ''Properties'' (propertiesTable t)
              (pushSection 0 ''Events'' (eventsTable t) output))))"
proof (intro conjI impI)
  show "writeClassTables self hierarchy output [] s =
     Inr (output @
            [HtmlNode ''h3'' (Some [(''class'', Str ''section-heading'')]) (Str ''Events''),
             table [''Property'', ''Modifiers'', ''Type'', ''Description'']], s)"
    by (simp add: newClassTables_def pushClassTables_def pushSection_def)
  show "writeInterfaceTables self hierarchy output [] s = Inr (output, s)"
    by (simp add: newInterfaceTables_def pushInterfaceTables_def pushSection_def)
  assume h: "(\<forall>m\<in>set ms. kind (item_data m) \<noteq> Constructor) \<and>
    writeClassTables self hierarchy output ms s = Inr (output', s')"
  then obtain t where
    l: "classMembers self hierarchy ms newClassTables s = Inr (t, s')" and
    o: "output' = pushClassTables t output"
    by (auto split: sum.splits prod.splits)
  from h l have "constructorsTable t = constructorsTable newClassTables"
    by (intro classMembers_constructorsTable) auto
  then have "\<And>out. pushSection 1 ''Constructors'' (constructorsTable t) out = out"
    by (simp add: newClassTables_def pushSection_def)
  with o have "output' =
         pushSection 1 ''Methods'' (methodsTable t)
           (pushSection 1 ''Properties'' (propertiesTable t)
              (pushSection 0 ''Events'' (eventsTable t) output))"
    by (simp add: pushClassTables_def)
  then show "\<exists>t :: ClassTables. output' =
         pushSection 1 ''Methods'' (methodsTable t)
           (pushSection 1 ''Properties'' (propertiesTable t)
              (pushSection 0 ''Events'' (eventsTable t) output))"
    by (rule exI)
qed


theorem class_table_thresholds_witness:
  "texts (case writeClassTables (documenter failModel) widgetsPath [] [] emptyState of
            Inl e \<Rightarrow> []
          | Inr (output, s) \<Rightarrow> output) = [''Events'', []] \<and>
   kind (item_data (ApiItem (item Property ''size'') [])) \<noteq> Constructor \<and>
   (\<exists>output' s' (t :: ClassTables).
      writeClassTables (documenter failModel) (widgetsPath @ [item Class ''widget'']) []
        [ApiItem (item Property ''size'') []] emptyState = Inr (output', s') \<and>
      output' =
        pushSection 1 ''Methods'' (methodsTable t)
          (pushSection 1 ''Properties'' (propertiesTable t)
             (pushSection 0 ''Events'' (eventsTable t) [])))"
proof -
  have k: "\<forall>m\<in>set [ApiItem (item Property ''size'') []]. kind (item_data m) \<noteq> Constructor"
    by (simp add: item_def)
  have "\<not> isl (writeClassTables (documenter failModel) (widgetsPath @ [item Class ''widget'']) []
                 [ApiItem (item Property ''size'') []] emptyState)"
    by code_simp
  then obtain output' s' where
    r: "writeClassTables (documenter failModel) (widgetsPath @ [item Class ''widget'']) []
          [ApiItem (item Property ''size'') []] emptyState = Inr (output', s')"
    by (cases "writeClassTables (documenter failModel) (widgetsPath @ [item Class ''widget'']) []
                 [ApiItem (item Property ''size'') []] emptyState") auto
  note t = class_table_thresholds
             [where self = "documenter failModel" and hierarchy = "widgetsPath @ [item Class ''widget'']"
                and ?output = "[]" and s = emptyState and ms = "[ApiItem (item Property ''size'') []]"
                and ?output' = output' and s' = s']
  from t k r obtain tt :: ClassTables where
    "output' =
        pushSection 1 ''Methods'' (methodsTable tt)
          (pushSection 1 ''Properties'' (propertiesTable tt)
             (pushSection 0 ''Events'' (eventsTable tt) []))"
    by blast
  with r have 3: "\<exists>output' s' (t :: ClassTables).
      writeClassTables (documenter failModel) (widgetsPath @ [item Class ''widget'']) []
        [ApiItem (item Property ''size'') []] emptyState = Inr (output', s') \<and>
      output' =
        pushSection 1 ''Methods'' (methodsTable t)
          (pushSection 1 ''Properties'' (propertiesTable t)
             (pushSection 0 ''Events'' (eventsTable t) []))"
    by blast
  have 1: "texts (case writeClassTables (documenter failModel) widgetsPath [] [] emptyState of
            Inl e \<Rightarrow> []
          | Inr (output, s) \<Rightarrow> output) = [''Events'', []]"
    using class_table_thresholds
            [where self = "documenter failModel" and hierarchy = widgetsPath and ?output = "[]"
               and s = emptyState and ms = "[]" and ?output' = "[]" and s' = emptyState]
    by (simp add: texts_def table_eq del: writeClassTables.simps)
  from k have 2: "kind (item_data (ApiItem (item Property ''size'') [])) \<noteq> Constructor"
    by simp
  from 1 2 3 show ?thesis by blast
qed



section \<open>The filename resolver\<close>

lemma nat_of_digit: "d < 10 \<Longrightarrow> (of_char (digit_char d) :: nat) - 48 = d"
  by (simp add: digit_char_def)

lemma nat_of_string_of_nat: "nat_of_string (string_of_nat n) = n"
proof (induction n rule: string_of_nat.induct)
  case (1 n)
  show ?case
  proof (cases "n < 10")
    case True
    then show ?thesis
      by (subst string_of_nat.simps) (simp add: nat_of_string_def nat_of_digit)
  next
    case False
    with 1 have "nat_of_string (string_of_nat (n div 10)) = n div 10" by simp
    with False show ?thesis
      by (subst string_of_nat.simps) (simp add: nat_of_string_def nat_of_digit)
  qed
qed

lemma string_of_nat_inject: "string_of_nat m = string_of_nat n \<Longrightarrow> m = n"
  by (metis nat_of_string_of_nat)

lemma getFilename_last:
  "getFilenameForApiItem self ancestors apiItem =
     (if kind apiItem = Model then ''index.html''
      else filenameStep self (foldl (filenameStep self) [] ancestors) apiItem @ ''.html'')"
  by (simp add: getFilenameForApiItem_def getHierarchy_def)

lemma filenameStep_other:
  "kind h \<notin> {Model, EntryPoint, Package} \<Longrightarrow>
     filenameStep self b h = b @ ''.'' @ qualifiedName self h"
  by (cases "kind h") (simp_all add: filenameStep_def)

lemma foldl_filenameStep:
  "\<forall>h\<in>set post. kind h \<noteq> Package \<Longrightarrow>
     foldl (filenameStep self) b post =
       b @ concat (map (\<lambda>h. ''.'' @ qualifiedName self h)
                     (filter (\<lambda>h. kind h \<noteq> Model \<and> kind h \<noteq> EntryPoint) post))"
proof (induction post arbitrary: b)
  case Nil
  show ?case by simp
next
  case (Cons h post)
  then have IH: "\<And>b. foldl (filenameStep self) b post =
       b @ concat (map (\<lambda>h. ''.'' @ qualifiedName self h)
                     (filter (\<lambda>h. kind h \<noteq> Model \<and> kind h \<noteq> EntryPoint) post))"
    by simp
  from Cons.prems have "kind h \<noteq> Package" by simp
  then have "filenameStep self b h =
      (if kind h \<noteq> Model \<and> kind h \<noteq> EntryPoint then b @ ''.'' @ qualifiedName self h else b)"
    by (cases "kind h") (simp_all add: filenameStep_def)
  then show ?case
    by (simp add: IH)
qed

lemma foldl_filenameStep_package:
  "kind pkg = Package \<Longrightarrow>
     foldl (filenameStep self) b (pre @ [pkg]) =
       getSafeFilenameForName self (getUnscopedName self (displayName pkg))"
  by (simp add: filenameStep_def)

lemma filenameStep_Suc:
  "kind apiItem \<notin> {Model, EntryPoint, Package} \<Longrightarrow>
     filenameStep self b apiItem =
       b @ ''.'' @ getSafeFilenameForName self (displayName apiItem) @
       (case overloadIndex apiItem of
          None \<Rightarrow> []
        | Some i \<Rightarrow> if 1 < i then ''_'' @ string_of_nat (i - 1) else [])"
  by (auto simp: filenameStep_other qualifiedName_def split: option.splits)

lemma digit_char_1: "digit_char 1 = CHR ''1''"
  by code_simp

lemma string_of_nat_1 [simp]: "string_of_nat (Suc 0) = ''1''"
  using digit_char_1 by (subst string_of_nat.simps) simp

lemma safeName_widgets [simp]: "safeName (unscopedName ''@scope/widgets'') = ''widgets''"
  by (simp add: safeName_def unscopedName_def)

lemma safeName_foo [simp]: "safeName ''foo'' = ''foo''"
  by (simp add: safeName_def)

lemma safeName_widget [simp]: "safeName ''widget'' = ''widget''"
  by (simp add: safeName_def)

lemma qualifiedName_eq:
  "qualifiedName self h =
     getSafeFilenameForName self (displayName h) @
     (case overloadIndex h of
        None \<Rightarrow> []
      | Some i \<Rightarrow> if 1 < i then ''_'' @ string_of_nat (i - 1) else [])"
  by (simp add: qualifiedName_def split: option.splits)

text \<open>
  Claim C3, as amended. The model maps to \<^verbatim>\<open>index.html\<close>. For any other item below a
  package, the filename is the safe form of the unscoped package name, followed for
  every later level that is neither model nor entry point by a dot, the safe form of
  the display name of the level and, when the level has a parameter list and an
  overload index above 1, an underscore and the index minus one, and closed by
  \<^verbatim>\<open>.html\<close>.
\<close>

theorem filename_shape:
  "(kind apiItem = Model \<longrightarrow> getFilenameForApiItem self ancestors apiItem = ''index.html'') \<and>
   (kind apiItem \<noteq> Model \<and> getHierarchy ancestors apiItem = pre @ [pkg] @ post \<and>
    kind pkg = Package \<and> (\<forall>h\<in>set post. kind h \<noteq> Package) \<longrightarrow>
      getFilenameForApiItem self ancestors apiItem =
        getSafeFilenameForName self (getUnscopedName self (displayName pkg)) @
        concat (map (\<lambda>h. ''.'' @ getSafeFilenameForName self (displayName h) @
                          (case overloadIndex h of
                             None \<Rightarrow> []
                           | Some i \<Rightarrow> if 1 < i then ''_'' @ string_of_nat (i - 1) else []))
                  (filter (\<lambda>h. kind h \<noteq> Model \<and> kind h \<noteq> EntryPoint) post)) @
        ''.html'')"
proof (intro conjI impI)
  show "getFilenameForApiItem self ancestors apiItem = ''index.html''" if "kind apiItem = Model"
    using that by (simp add: getFilenameForApiItem_def)
  show "getFilenameForApiItem self ancestors apiItem =
        getSafeFilenameForName self (getUnscopedName self (displayName pkg)) @
        concat (map (\<lambda>h. ''.'' @ getSafeFilenameForName self (displayName h) @
                          (case overloadIndex h of
                             None \<Rightarrow> []
                           | Some i \<Rightarrow> if 1 < i then ''_'' @ string_of_nat (i - 1) else []))
                  (filter (\<lambda>h. kind h \<noteq> Model \<and> kind h \<noteq> EntryPoint) post)) @
        ''.html''"
    if h: "kind apiItem \<noteq> Model \<and> getHierarchy ancestors apiItem = pre @ [pkg] @ post \<and>
      kind pkg = Package \<and> (\<forall>h\<in>set post. kind h \<noteq> Package)"
  proof -
    from h have "foldl (filenameStep self) [] (getHierarchy ancestors apiItem) =
        foldl (filenameStep self) (foldl (filenameStep self) [] (pre @ [pkg])) post"
      by simp
    also from h have "\<dots> = foldl (filenameStep self)
        (getSafeFilenameForName self (getUnscopedName self (displayName pkg))) post"
      by (simp only: foldl_filenameStep_package)
    also from h have "\<dots> = getSafeFilenameForName self (getUnscopedName self (displayName pkg)) @
        concat (map (\<lambda>h. ''.'' @ qualifiedName self h)
                  (filter (\<lambda>h. kind h \<noteq> Model \<and> kind h \<noteq> EntryPoint) post))"
      by (intro foldl_filenameStep) simp
    finally show ?thesis using h by (simp add: getFilenameForApiItem_def qualifiedName_eq)
  qed
qed

theorem filename_shape_witness:
  "getFilenameForApiItem (documenter clashModel) [] (item Model []) = ''index.html'' \<and>
   getFilenameForApiItem (documenter clashModel)
      (widgetsPath @ [item Class ''widget'']) (overload Method ''foo'' 1) =
        ''widgets.widget.foo.html'' \<and>
   getFilenameForApiItem (documenter clashModel)
      (widgetsPath @ [item Class ''widget'']) (overload Method ''foo'' 2) =
        ''widgets.widget.foo_1.html''"
  using filename_shape [where apiItem = "item Model []"
          and self = "documenter clashModel" and ancestors = "[]"
          and pre = "[]" and pkg = "item Package ''@scope/widgets''" and post = "[]"]
    filename_shape [where apiItem = "overload Method ''foo'' 1"
      and self = "documenter clashModel"
      and ancestors = "widgetsPath @ [item Class ''widget'']"
      and pre = "[item Model []]" and pkg = "item Package ''@scope/widgets''"
      and post = "[item EntryPoint [], item Class ''widget'', overload Method ''foo'' 1]"]
    filename_shape [where apiItem = "overload Method ''foo'' 2"
      and self = "documenter clashModel"
      and ancestors = "widgetsPath @ [item Class ''widget'']"
      and pre = "[item Model []]" and pkg = "item Package ''@scope/widgets''"
      and post = "[item EntryPoint [], item Class ''widget'', overload Method ''foo'' 2]"]
  by (simp add: getHierarchy_def widgetsPath_def overload_def item_def documenter_def)

text \<open>The shape without the overload suffix fails for the second overload of a method.\<close>

theorem overloaded_level_counterexample:
  "getFilenameForApiItem (documenter clashModel)
      (widgetsPath @ [item Class ''widget'']) (overload Method ''foo'' 2) \<noteq>
     unscopedName ''@scope/widgets'' @ ''.'' @ safeName ''widget'' @ ''.'' @ safeName ''foo'' @
     ''.html'' \<and>
   getFilenameForApiItem (documenter clashModel)
      (widgetsPath @ [item Class ''widget'']) (overload Method ''foo'' 2) =
     ''widgets.widget.foo_1.html''"
  by code_simp


text \<open>
  Claim C2, as amended. For an item that is not model, entry point or package, the
  filename ends with a dot, the safe display name, and, when the item has a parameter
  list and an overload index above 1, an underscore and the index minus one; directly
  under a package the part before is the safe unscoped package name. So a single
  function \<^verbatim>\<open>foo\<close> and the first overload give \<^verbatim>\<open><Package>.foo.html\<close>, and the overload
  with index 2 gives \<^verbatim>\<open><Package>.foo_1.html\<close>.
\<close>

theorem overload_suffix_rule:
  "(kind apiItem \<notin> {Model, EntryPoint, Package} \<longrightarrow>
      getFilenameForApiItem self ancestors apiItem =
        foldl (filenameStep self) [] ancestors @ ''.'' @
        getSafeFilenameForName self (displayName apiItem) @
        (case overloadIndex apiItem of
           None \<Rightarrow> []
         | Some i \<Rightarrow> if 1 < i then ''_'' @ string_of_nat (i - 1) else []) @
        ''.html'') \<and>
   (kind pkg = Package \<and> kind ep = EntryPoint \<longrightarrow>
      foldl (filenameStep self) [] [m, pkg, ep] =
        getSafeFilenameForName self (getUnscopedName self (displayName pkg)))"
proof (intro conjI impI)
  assume k: "kind apiItem \<notin> {Model, EntryPoint, Package}"
  then have "kind apiItem \<noteq> Model" by simp
  then show "getFilenameForApiItem self ancestors apiItem =
        foldl (filenameStep self) [] ancestors @ ''.'' @
        getSafeFilenameForName self (displayName apiItem) @
        (case overloadIndex apiItem of
           None \<Rightarrow> []
         | Some i \<Rightarrow> if 1 < i then ''_'' @ string_of_nat (i - 1) else []) @
        ''.html''"
    by (simp add: getFilename_last filenameStep_Suc [OF k])
next
  assume "kind pkg = Package \<and> kind ep = EntryPoint"
  then show "foldl (filenameStep self) [] [m, pkg, ep] =
        getSafeFilenameForName self (getUnscopedName self (displayName pkg))"
    by (simp add: filenameStep_def)
qed

theorem overload_suffix_rule_witness:
  "getFilenameForApiItem (documenter (ApiItem (item Model []) [])) widgetsPath
      (overload Function ''foo'' 1) = ''widgets.foo.html'' \<and>
   getFilenameForApiItem (documenter (ApiItem (item Model []) [])) widgetsPath
      (overload Function ''foo'' 2) = ''widgets.foo_1.html''"
  using overload_suffix_rule [of "overload Function ''foo'' 1"
          "documenter (ApiItem (item Model []) [])" widgetsPath
          "item Package ''@scope/widgets''" "item EntryPoint []" "item Model []"]
        overload_suffix_rule [of "overload Function ''foo'' 2"
          "documenter (ApiItem (item Model []) [])" widgetsPath
          "item Package ''@scope/widgets''" "item EntryPoint []" "item Model []"]
  by (simp add: widgetsPath_def overload_def item_def documenter_def)

theorem second_overload_filename_counterexample:
  "getFilenameForApiItem (documenter (ApiItem (item Model []) [])) widgetsPath
      (overload Function ''foo'' 2) \<noteq> ''widgets.foo_2.html''"
  by (simp add: getFilenameForApiItem_def getHierarchy_def filenameStep_def qualifiedName_def
        widgetsPath_def overload_def item_def documenter_def)

text \<open>
  Claim C1, as amended. Overloads of one name in one container get distinct filenames:
  two items with the same ancestors and display name, neither model, entry point nor
  package, whose overload indices are at least 1 and differ, map to different filenames.
\<close>

theorem overloads_get_distinct_filenames:
  assumes "kind x \<notin> {Model, EntryPoint, Package}" and "kind y \<notin> {Model, EntryPoint, Package}"
    and "displayName x = displayName y"
    and "overloadIndex x = Some i" and "overloadIndex y = Some j"
    and "1 \<le> i" and "1 \<le> j" and "i \<noteq> j"
  shows "getFilenameForApiItem self ancestors x \<noteq> getFilenameForApiItem self ancestors y"
proof
  assume eq: "getFilenameForApiItem self ancestors x = getFilenameForApiItem self ancestors y"
  from assms(1,2) have "kind x \<noteq> Model" "kind y \<noteq> Model" by simp_all
  with eq assms(3,4,5) have
    "(if 1 < i then ''_'' @ string_of_nat (i - 1) else []) =
     (if 1 < j then ''_'' @ string_of_nat (j - 1) else [])"
    by (simp add: getFilename_last filenameStep_Suc [OF assms(1)] filenameStep_Suc [OF assms(2)])
  then have "i = j"
    using assms(6,7) by (auto split: if_splits dest: string_of_nat_inject)
  with assms(8) show False by simp
qed

theorem overloads_get_distinct_filenames_witness:
  "getFilenameForApiItem (documenter (ApiItem (item Model []) [])) widgetsPath
      (overload Function ''foo'' 1) \<noteq>
   getFilenameForApiItem (documenter (ApiItem (item Model []) [])) widgetsPath
      (overload Function ''foo'' 2)"
  using overloads_get_distinct_filenames [of "overload Function ''foo'' 1"
          "overload Function ''foo'' 2" 1 2 "documenter (ApiItem (item Model []) [])" widgetsPath]
  by (simp add: overload_def item_def)

theorem filename_collision_counterexample:
  "item Class ''foo'' \<noteq> item Namespace ''foo'' \<and>
   getFilenameForApiItem (documenter clashModel) widgetsPath (item Class ''foo'') =
     getFilenameForApiItem (documenter clashModel) widgetsPath (item Namespace ''foo'') \<and>
   overload Function ''foo'' 2 \<noteq> overload Function ''foo_1'' 1 \<and>
   getFilenameForApiItem (documenter clashModel) widgetsPath (overload Function ''foo'' 2) =
     getFilenameForApiItem (documenter clashModel) widgetsPath (overload Function ''foo_1'' 1) \<and>
   (case generateFiles (documenter clashModel) ''out'' of
      Inl e \<Rightarrow> []
    | Inr s \<Rightarrow> map fst (files s)) =
     [''widgets.foo.html'', ''widgets.foo.html'', ''widgets.html'', ''index.html'']"
  by code_simp


section \<open>The breadcrumb\<close>

lemma breadcrumb_case:
  "(case kind h of Model \<Rightarrow> out | EntryPoint \<Rightarrow> out | _ \<Rightarrow> out @ xs) =
     (if kind h \<noteq> Model \<and> kind h \<noteq> EntryPoint then out @ xs else out)"
  by (cases "kind h") simp_all

lemma append_snoc_fun: "(@) (pre @ [h]) = (\<lambda>p. pre @ h # p)"
  by (rule ext) simp

lemma breadcrumbLoop_eq:
  "breadcrumbLoop self pre hs out =
     out @ concat (map (\<lambda>(p, h).
                     [tag ''span'' (Str ''breadcrumb'') (Str '' / ''),
                      a (displayName h) (getLinkFilenameForApiItem self p h) (Str ''breadcrumb'')])
                (filter (\<lambda>(p, h). kind h \<noteq> Model \<and> kind h \<noteq> EntryPoint)
                   (zip (map ((@) pre) (prefixes hs)) hs)))"
proof (induction hs arbitrary: pre out)
  case Nil
  show ?case by simp
next
  case (Cons h hs)
  show ?case
    by (simp add: Cons.IH breadcrumb_case append_snoc_fun comp_def del: tag_class_text)
qed

text \<open>
  Claim C4, as amended. The breadcrumb is the Home link to the page of the model and
  then, for every level of the hierarchy that is neither model nor entry point, the
  package included, a separator and a link to the page of that level, named by its
  display name. For a method of a class in a namespace of a package it reads
  Home / package / namespace / class / method.
\<close>

theorem breadcrumb_links:
  "kind (item_data (apiModel self)) = Model \<longrightarrow>
     writeBreadcrumb self output ancestors apiItem =
       output @
       a ''Home'' ''./index.html'' (Str ''breadcrumb'') #
       concat (map (\<lambda>(p, h).
                 [HtmlNode ''span'' (Some [(''class'', Str ''breadcrumb'')]) (Str '' / ''),
                  a (displayName h) (getLinkFilenameForApiItem self p h) (Str ''breadcrumb'')])
            (filter (\<lambda>(p, h). kind h \<noteq> Model \<and> kind h \<noteq> EntryPoint)
               (zip (prefixes (getHierarchy ancestors apiItem))
                    (getHierarchy ancestors apiItem))))"
proof
  assume m: "kind (item_data (apiModel self)) = Model"
  have "map ((@) []) (prefixes (getHierarchy ancestors apiItem)) =
        prefixes (getHierarchy ancestors apiItem)"
    by (induction "prefixes (getHierarchy ancestors apiItem)") simp_all
  then show "writeBreadcrumb self output ancestors apiItem =
       output @
       a ''Home'' ''./index.html'' (Str ''breadcrumb'') #
       concat (map (\<lambda>(p, h).
                 [HtmlNode ''span'' (Some [(''class'', Str ''breadcrumb'')]) (Str '' / ''),
                  a (displayName h) (getLinkFilenameForApiItem self p h) (Str ''breadcrumb'')])
            (filter (\<lambda>(p, h). kind h \<noteq> Model \<and> kind h \<noteq> EntryPoint)
               (zip (prefixes (getHierarchy ancestors apiItem))
                    (getHierarchy ancestors apiItem))))"
    using m
    by (simp add: writeBreadcrumb_def breadcrumbLoop_eq getLinkFilenameForApiItem_def
          getFilenameForApiItem_def)
qed

theorem breadcrumb_links_witness:
  "writeBreadcrumb (documenter skipModel) [] nestedPath methodWithX =
     [a ''Home'' ''./index.html'' (Str ''breadcrumb''),
      HtmlNode ''span'' (Some [(''class'', Str ''breadcrumb'')]) (Str '' / ''),
      a ''@scope/widgets'' ''./widgets.html'' (Str ''breadcrumb''),
      HtmlNode ''span'' (Some [(''class'', Str ''breadcrumb'')]) (Str '' / ''),
      a ''shapes'' ''./widgets.shapes.html'' (Str ''breadcrumb''),
      HtmlNode ''span'' (Some [(''class'', Str ''breadcrumb'')]) (Str '' / ''),
      a ''widget'' ''./widgets.shapes.widget.html'' (Str ''breadcrumb''),
      HtmlNode ''span'' (Some [(''class'', Str ''breadcrumb'')]) (Str '' / ''),
      a ''doThing'' ''./widgets.shapes.widget.doThing.html'' (Str ''breadcrumb'')] \<and>
   texts (writeBreadcrumb (documenter skipModel) [] nestedPath methodWithX) =
     [''Home'', '' / '', ''@scope/widgets'', '' / '', ''shapes'', '' / '', ''widget'',
      '' / '', ''doThing'']"
proof -
  have p: "prefixes (getHierarchy nestedPath methodWithX) =
      [[], [item Model []], [item Model [], item Package ''@scope/widgets''],
       widgetsPath, widgetsPath @ [item Namespace ''shapes''], nestedPath,
       nestedPath @ [methodWithX]]"
    by (simp add: getHierarchy_def nestedPath_def widgetsPath_def)
  have f: "getLinkFilenameForApiItem (documenter skipModel) [item Model []]
             (item Package ''@scope/widgets'') = ''./widgets.html''"
    "getLinkFilenameForApiItem (documenter skipModel) widgetsPath
             (item Namespace ''shapes'') = ''./widgets.shapes.html''"
    "getLinkFilenameForApiItem (documenter skipModel) (widgetsPath @ [item Namespace ''shapes''])
             (item Class ''widget'') = ''./widgets.shapes.widget.html''"
    "getLinkFilenameForApiItem (documenter skipModel) nestedPath
             methodWithX = ''./widgets.shapes.widget.doThing.html''"
    by code_simp+
  have k: "kind (item_data (apiModel (documenter skipModel))) = Model"
    by (simp add: documenter_def skipModel_def item_def)
  have h: "getHierarchy nestedPath methodWithX =
      [item Model [], item Package ''@scope/widgets'', item EntryPoint [],
       item Namespace ''shapes'', item Class ''widget'', methodWithX]"
    by (simp add: getHierarchy_def nestedPath_def widgetsPath_def)
  have kinds: "kind (item Model []) = Model" "kind (item Package ''@scope/widgets'') = Package"
    "kind (item EntryPoint []) = EntryPoint" "kind (item Namespace ''shapes'') = Namespace"
    "kind (item Class ''widget'') = Class" "kind methodWithX = Method"
    "displayName (item Package ''@scope/widgets'') = ''@scope/widgets''"
    "displayName (item Namespace ''shapes'') = ''shapes''"
    "displayName (item Class ''widget'') = ''widget''"
    "displayName methodWithX = ''doThing''"
    by (simp_all add: item_def overload_def methodWithX_def)
  from breadcrumb_links [of "documenter skipModel" "[]" nestedPath "methodWithX"] k
  have "writeBreadcrumb (documenter skipModel) [] nestedPath methodWithX =
     [a ''Home'' ''./index.html'' (Str ''breadcrumb''),
      HtmlNode ''span'' (Some [(''class'', Str ''breadcrumb'')]) (Str '' / ''),
      a ''@scope/widgets'' ''./widgets.html'' (Str ''breadcrumb''),
      HtmlNode ''span'' (Some [(''class'', Str ''breadcrumb'')]) (Str '' / ''),
      a ''shapes'' ''./widgets.shapes.html'' (Str ''breadcrumb''),
      HtmlNode ''span'' (Some [(''class'', Str ''breadcrumb'')]) (Str '' / ''),
      a ''widget'' ''./widgets.shapes.widget.html'' (Str ''breadcrumb''),
      HtmlNode ''span'' (Some [(''class'', Str ''breadcrumb'')]) (Str '' / ''),
      a ''doThing'' ''./widgets.shapes.widget.doThing.html'' (Str ''breadcrumb'')]"
    unfolding p unfolding h by (simp add: kinds f)
  then show ?thesis by (simp add: texts_def a_def)
qed

theorem breadcrumb_package_counterexample:
  "writeBreadcrumb (documenter skipModel) [] nestedPath methodWithX \<noteq>
     [a ''Home'' ''./index.html'' (Str ''breadcrumb''),
      tag ''span'' (Str ''breadcrumb'') (Str '' / ''),
      a ''shapes'' ''./widgets.shapes.html'' (Str ''breadcrumb''),
      tag ''span'' (Str ''breadcrumb'') (Str '' / ''),
      a ''widget'' ''./widgets.shapes.widget.html'' (Str ''breadcrumb''),
      tag ''span'' (Str ''breadcrumb'') (Str '' / ''),
      a ''doThing'' ''./widgets.shapes.widget.doThing.html'' (Str ''breadcrumb'')] \<and>
   length (writeBreadcrumb (documenter skipModel) [] nestedPath methodWithX) = 9 \<and>
   writeBreadcrumb (documenter skipModel) [] nestedPath methodWithX ! 2 =
     a ''@scope/widgets'' ''./widgets.html'' (Str ''breadcrumb'')"
  by code_simp


section \<open>Fatal errors\<close>

lemma render_errors:
  "renderDocNode n s = Inl e \<Longrightarrow> \<exists>k. e = UnsupportedDocNodeKind k"
  "mapDocNodes ns s = Inl e \<Longrightarrow> \<exists>k. e = UnsupportedDocNodeKind k"
  "createDocNodes ns' s' = Inl e \<Longrightarrow> \<exists>k. e = UnsupportedDocNodeKind k"
  by (induction n s and ns s and ns' s' arbitrary: e and e and e
        rule: renderDocNode_mapDocNodes_createDocNodes.induct)
     (auto simp: Let_def split: sum.splits prod.splits if_splits)

lemma unsupported_fail:
  "unsupportedNode n \<Longrightarrow> \<exists>k. renderDocNode n s = Inl (UnsupportedDocNodeKind k)"
  "unsupportedNodes ns \<Longrightarrow> \<exists>k. mapDocNodes ns s = Inl (UnsupportedDocNodeKind k)"
proof (induction n and ns arbitrary: s and s rule: unsupportedNode_unsupportedNodes.induct)
  case (2 ns)
  then have "unsupportedNodes ns" by simp
  with 2(1) obtain k where "mapDocNodes ns s = Inl (UnsupportedDocNodeKind k)" by blast
  then show ?case by simp
next
  case (5 n ns)
  show ?case
  proof (cases "renderDocNode n s")
    case (Inl e)
    with render_errors(1) [of n s e] show ?thesis by auto
  next
    case (Inr r)
    show ?thesis
    proof (cases "unsupportedNode n")
      case True
      with 5(1) [of s] Inr show ?thesis by auto
    next
      case False
      with 5(3) have "unsupportedNodes ns" by simp
      with 5(2) obtain k where "mapDocNodes ns (snd r) = Inl (UnsupportedDocNodeKind k)" by blast
      with Inr show ?thesis by (cases r) auto
    qed
  qed
qed (auto split: sum.splits)

lemma createDocNodes_unsupported:
  "unsupportedNodes ns \<Longrightarrow> \<exists>k. createDocNodes ns s = Inl (UnsupportedDocNodeKind k)"
proof -
  assume "unsupportedNodes ns"
  with unsupported_fail(2) obtain k where "mapDocNodes ns s = Inl (UnsupportedDocNodeKind k)"
    by blast
  then show ?thesis by simp
qed

lemma writeHeading_unsupported:
  "kind apiItem \<in> {CallSignature, EntryPoint, EnumMember, IndexSignature, NoneKind} \<Longrightarrow>
     writeHeading self output apiItem s = Inl (UnsupportedApiItemKind (kind apiItem))"
  by (auto simp: writeHeading_def)

text \<open>
  Whether a page, a loop or a writer fails, and with which error, does not depend on the
  state it starts from, nor on the output and tables collected so far.
\<close>

lemma outcome_simps [simp]: "outcome (Inl e) = Some e" "outcome (Inr x) = None"
  by (simp_all add: outcome_def)

lemma outcome_docs:
  "outcome (renderDocNode n s) = outcome (renderDocNode n s')"
  "outcome (mapDocNodes ns s) = outcome (mapDocNodes ns s')"
  "outcome (createDocNodes ms s) = outcome (createDocNodes ms s')"
proof (induction n s and ns s and ms s arbitrary: s' and s' and s'
         rule: renderDocNode_mapDocNodes_createDocNodes.induct)
  case (1 ns s)
  from 1 [of s'] show ?case
    by (auto simp del: createDocNodes.simps split: sum.splits prod.splits)
next
  case (8 n ns s)
  show ?case
  proof (cases "renderDocNode n s")
    case (Inl e)
    with 8(1) [of s'] show ?thesis by (auto split: sum.splits prod.splits)
  next
    case (Inr r)
    obtain h s1 where r: "r = (h, s1)" by (cases r)
    from Inr 8(1) [of s'] obtain h' s1' where r': "renderDocNode n s' = Inr (h', s1')"
      by (cases "renderDocNode n s'") auto
    from 8(2) [OF Inr r [symmetric], of s1'] Inr r r' show ?thesis
      by (auto split: sum.splits prod.splits)
  qed
next
  case (9 ns s)
  from 9 [of s'] show ?case
    by (auto split: sum.splits prod.splits)
qed (simp_all add: Let_def)


lemma outcome_bindI:
  assumes "outcome r = outcome r'"
    and "\<And>x x'. r = Inr x \<Longrightarrow> r' = Inr x' \<Longrightarrow> outcome (g x) = outcome (g' x')"
  shows "outcome (case_sum Inl g r) = outcome (case_sum Inl g' r')"
  using assms by (cases r; cases r') auto

lemma outcome_createDescriptionCell:
  "outcome (createDescriptionCell d s) = outcome (createDescriptionCell d s')"
proof (cases "tsdocComment d")
  case None
  then show ?thesis by (simp add: createDescriptionCell_def)
next
  case (Some c)
  show ?thesis
    apply (simp only: createDescriptionCell_def Some option.case)
    apply (intro outcome_bindI outcome_docs(3))
    apply auto
    done
qed

lemma outcome_writeSummary:
  "outcome (writeSummary out d s) = outcome (writeSummary out' d s')"
proof (cases "tsdocComment d")
  case None
  then show ?thesis by (simp add: writeSummary_def)
next
  case (Some c)
  show ?thesis
    apply (simp only: writeSummary_def Some option.case)
    apply (intro outcome_bindI outcome_docs(3))
    apply auto
    done
qed

lemma outcome_writeRemarksSection:
  "outcome (writeRemarksSection out d s) = outcome (writeRemarksSection out' d s')"
proof (cases "tsdocComment d")
  case None
  then show ?thesis by (simp add: writeRemarksSection_def)
next
  case (Some c)
  show ?thesis
  proof (cases "remarksBlock c")
    case None
    with Some show ?thesis by (simp add: writeRemarksSection_def)
  next
    case Some2: (Some nodes)
    show ?thesis
      apply (simp only: writeRemarksSection_def Some Some2 option.case)
      apply (intro outcome_bindI outcome_docs(3))
      apply auto
      done
  qed
qed

lemma outcome_writeHeading:
  "outcome (writeHeading self out d s) = outcome (writeHeading self out' d s')"
  by (cases "kind d") (simp_all add: writeHeading_def)

lemma outcome_pageStart:
  "outcome (pageStart self anc d s) = outcome (pageStart self anc d s')"
  unfolding pageStart_def
  by (intro outcome_bindI outcome_writeHeading)
     (auto intro!: outcome_bindI outcome_writeSummary outcome_writeRemarksSection)

lemma outcome_pageFinish:
  "outcome (pageFinish self anc d out s) = outcome (pageFinish self anc d out' s')"
  unfolding pageFinish_def
  by (intro outcome_bindI) (auto intro!: outcome_writeRemarksSection)

lemma outcome_enumMembers:
  "outcome (enumMembers self ms t s) = outcome (enumMembers self ms t' s')"
proof (induction ms arbitrary: t s t' s')
  case Nil
  show ?case by simp
next
  case (Cons m ms)
  show ?case
    unfolding enumMembers.simps
    by (intro outcome_bindI outcome_createDescriptionCell) (auto intro!: Cons.IH)
qed

lemma outcome_writeEnumTables:
  "outcome (writeEnumTables self out ms s) = outcome (writeEnumTables self out' ms s')"
  unfolding writeEnumTables_def
  by (intro outcome_bindI outcome_enumMembers) auto

lemma outcome_writeOtherBody:
  "outcome (writeOtherBody self out d ms s) = outcome (writeOtherBody self out' d ms s')"
  using outcome_writeEnumTables [of self out ms s out' s']
  by (cases "kind d") (simp_all add: writeOtherBody_def)

lemma rowOutcome_simps [simp]:
  "rowOutcome (Inl e) = Inl e" "rowOutcome (Inr (t, s, page)) = Inr page"
  by (simp_all add: rowOutcome_def)

lemma rowOutcome_bindI:
  assumes "outcome r = outcome r'"
    and "\<And>x x'. r = Inr x \<Longrightarrow> r' = Inr x' \<Longrightarrow> rowOutcome (g x) = rowOutcome (g' x')"
  shows "rowOutcome (case_sum Inl g r) = rowOutcome (case_sum Inl g' r')"
  using assms by (cases r; cases r') auto

lemma rowOutcome_model:
  "rowOutcome (modelMemberRow self h d t s) = rowOutcome (modelMemberRow self h d t' s')"
  unfolding modelMemberRow_def
  by (intro rowOutcome_bindI outcome_createDescriptionCell) (cases "kind d"; auto simp: Let_def)

lemma rowOutcome_container:
  "rowOutcome (containerMemberRow self h d t s) = rowOutcome (containerMemberRow self h d t' s')"
  unfolding containerMemberRow_def
  by (intro rowOutcome_bindI outcome_createDescriptionCell) (cases "kind d"; auto simp: Let_def)

lemma rowOutcome_class:
  "rowOutcome (classMemberRow self h d t s) = rowOutcome (classMemberRow self h d t' s')"
  unfolding classMemberRow_def
  by (cases "kind d"; simp)
     (intro rowOutcome_bindI outcome_createDescriptionCell; auto simp: Let_def)+

lemma rowOutcome_interface:
  "rowOutcome (interfaceMemberRow self h d t s) = rowOutcome (interfaceMemberRow self h d t' s')"
  unfolding interfaceMemberRow_def
  by (auto intro!: rowOutcome_bindI outcome_createDescriptionCell simp: Let_def)


lemma outcome_bind2I:
  assumes "outcome r = outcome r'"
    and "\<And>x y x' y'. r = Inr (x, y) \<Longrightarrow> r' = Inr (x', y') \<Longrightarrow>
           outcome (g (x, y)) = outcome (g' (x', y'))"
  shows "outcome (case_sum Inl g r) = outcome (case_sum Inl g' r')"
  using assms by (cases r; cases r') auto

lemma outcome_rowI:
  assumes "rowOutcome r = rowOutcome r'"
    and "\<And>t s t' s' page. r = Inr (t, s, page) \<Longrightarrow> r' = Inr (t', s', page) \<Longrightarrow>
           outcome (g (t, s, page)) = outcome (g' (t', s', page))"
  shows "outcome (case_sum Inl g r) = outcome (case_sum Inl g' r')"
  using assms by (cases r; cases r') (auto simp: rowOutcome_def)

lemma outcome_loop_step:
  assumes page: "page \<Longrightarrow> outcome (p s1) = outcome (p s1')"
    and rest: "\<And>s2 s2'. page \<Longrightarrow> p s1 = Inr s2 \<Longrightarrow> outcome (l t1 s2) = outcome (l t1' s2')"
    and skip: "\<not> page \<Longrightarrow> outcome (l t1 s1) = outcome (l t1' s1')"
  shows "outcome (if page then (case p s1 of Inl e \<Rightarrow> Inl e | Inr s2 \<Rightarrow> l t1 s2) else l t1 s1) =
         outcome (if page then (case p s1' of Inl e \<Rightarrow> Inl e | Inr s2 \<Rightarrow> l t1' s2) else l t1' s1')"
proof (cases page)
  case True
  with page rest show ?thesis
    by (simp add: outcome_bindI)
next
  case False
  with skip show ?thesis by simp
qed

lemma outcome_generator:
  "outcome (writeApiItemPage self anc node s) = outcome (writeApiItemPage self anc node s')"
  "outcome (writeModelTable self2 h2 out2 ms2 s2) = outcome (writeModelTable self2 h2 out2' ms2 s2')"
  "outcome (modelMembers self3 h3 ms3 t3 s3) = outcome (modelMembers self3 h3 ms3 t3' s3')"
  "outcome (writePackageOrNamespaceTables self4 h4 out4 k4 ms4 s4) =
     outcome (writePackageOrNamespaceTables self4 h4 out4' k4 ms4 s4')"
  "outcome (containerMembers self5 h5 ms5 t5 s5) = outcome (containerMembers self5 h5 ms5 t5' s5')"
  "outcome (writeClassTables self6 h6 out6 ms6 s6) = outcome (writeClassTables self6 h6 out6' ms6 s6')"
  "outcome (classMembers self7 h7 ms7 t7 s7) = outcome (classMembers self7 h7 ms7 t7' s7')"
  "outcome (writeInterfaceTables self8 h8 out8 ms8 s8) =
     outcome (writeInterfaceTables self8 h8 out8' ms8 s8')"
  "outcome (interfaceMembers self9 h9 ms9 t9 s9) = outcome (interfaceMembers self9 h9 ms9 t9' s9')"
proof (induction self anc node s and self2 h2 out2 ms2 s2 and self3 h3 ms3 t3 s3
         and self4 h4 out4 k4 ms4 s4 and self5 h5 ms5 t5 s5 and self6 h6 out6 ms6 s6
         and self7 h7 ms7 t7 s7 and self8 h8 out8 ms8 s8 and self9 h9 ms9 t9 s9
         arbitrary: s' and out2' s2' and t3' s3' and out4' s4' and t5' s5' and out6' s6'
         and t7' s7' and out8' s8' and t9' s9'
         rule: writeApiItemPage_writeModelTable_modelMembers_writePackageOrNamespaceTables_containerMembers_writeClassTables_classMembers_writeInterfaceTables_interfaceMembers.induct)
  case (1 self ancestors apiItem ms s)
  show ?case
    unfolding writeApiItemPage.simps
  proof (rule outcome_bind2I [OF outcome_pageStart])
    fix out1 s1 out1' s1'
    assume r: "pageStart self ancestors apiItem s = Inr (out1, s1)"
    have body: "outcome (if kind apiItem = Class
                 then writeClassTables self (ancestors @ [apiItem]) out1 ms s1
                 else if kind apiItem = Interface
                 then writeInterfaceTables self (ancestors @ [apiItem]) out1 ms s1
                 else if kind apiItem = Namespace \<or> kind apiItem = Package
                 then writePackageOrNamespaceTables self (ancestors @ [apiItem]) out1
                        (kind apiItem) ms s1
                 else if kind apiItem = Model
                 then writeModelTable self (ancestors @ [apiItem]) out1 ms s1
                 else writeOtherBody self out1 apiItem ms s1) =
          outcome (if kind apiItem = Class
                 then writeClassTables self (ancestors @ [apiItem]) out1' ms s1'
                 else if kind apiItem = Interface
                 then writeInterfaceTables self (ancestors @ [apiItem]) out1' ms s1'
                 else if kind apiItem = Namespace \<or> kind apiItem = Package
                 then writePackageOrNamespaceTables self (ancestors @ [apiItem]) out1'
                        (kind apiItem) ms s1'
                 else if kind apiItem = Model
                 then writeModelTable self (ancestors @ [apiItem]) out1' ms s1'
                 else writeOtherBody self out1' apiItem ms s1')"
    proof -
      consider (c) "kind apiItem = Class"
        | (i) "kind apiItem \<noteq> Class" "kind apiItem = Interface"
        | (n) "kind apiItem \<noteq> Class" "kind apiItem \<noteq> Interface"
              "kind apiItem = Namespace \<or> kind apiItem = Package"
        | (m) "kind apiItem \<noteq> Class" "kind apiItem \<noteq> Interface"
              "\<not> (kind apiItem = Namespace \<or> kind apiItem = Package)" "kind apiItem = Model"
        | (o) "kind apiItem \<noteq> Class" "kind apiItem \<noteq> Interface"
              "\<not> (kind apiItem = Namespace \<or> kind apiItem = Package)" "kind apiItem \<noteq> Model"
        by blast
      then show ?thesis
      proof cases
        case c
        from 1(1) [OF r refl c, of out1' s1'] c show ?thesis by simp
      next
        case i
        from 1(2) [OF r refl i, of out1' s1'] i show ?thesis by simp
      next
        case n
        from 1(3) [OF r refl n, of out1' s1'] n show ?thesis by simp
      next
        case m
        from 1(4) [OF r refl m, of out1' s1'] m show ?thesis by simp
      next
        case o
        with outcome_writeOtherBody [of self out1 apiItem ms s1 out1' s1'] show ?thesis by simp
      qed
    qed
    show "outcome (case (out1, s1) of
            (output, s1) \<Rightarrow>
              case if kind apiItem = Class
                   then writeClassTables self (ancestors @ [apiItem]) output ms s1
                   else if kind apiItem = Interface
                   then writeInterfaceTables self (ancestors @ [apiItem]) output ms s1
                   else if kind apiItem = Namespace \<or> kind apiItem = Package
                   then writePackageOrNamespaceTables self (ancestors @ [apiItem]) output
                          (kind apiItem) ms s1
                   else if kind apiItem = Model
                   then writeModelTable self (ancestors @ [apiItem]) output ms s1
                   else writeOtherBody self output apiItem ms s1 of
              Inl e \<Rightarrow> Inl e
            | Inr (output', s2) \<Rightarrow> pageFinish self ancestors apiItem output' s2) =
          outcome (case (out1', s1') of
            (output, s1) \<Rightarrow>
              case if kind apiItem = Class
                   then writeClassTables self (ancestors @ [apiItem]) output ms s1
                   else if kind apiItem = Interface
                   then writeInterfaceTables self (ancestors @ [apiItem]) output ms s1
                   else if kind apiItem = Namespace \<or> kind apiItem = Package
                   then writePackageOrNamespaceTables self (ancestors @ [apiItem]) output
                          (kind apiItem) ms s1
                   else if kind apiItem = Model
                   then writeModelTable self (ancestors @ [apiItem]) output ms s1
                   else writeOtherBody self output apiItem ms s1 of
              Inl e \<Rightarrow> Inl e
            | Inr (output', s2) \<Rightarrow> pageFinish self ancestors apiItem output' s2)"
      unfolding prod.case
      by (rule outcome_bind2I [OF body]) (simp add: outcome_pageFinish)
  qed
next
  case (2 self hierarchy out ms s)
  show ?case
    unfolding writeModelTable.simps
    by (rule outcome_bind2I [OF 2]) simp
next
  case (3 self hierarchy packagesTable s)
  show ?case by simp
next
  case (4 self hierarchy apiMember rest packagesTable s)
  show ?case
    unfolding modelMembers.simps
  proof (rule outcome_rowI [OF rowOutcome_model])
    fix t1 s1 t1' s1' page
    assume r: "modelMemberRow self hierarchy (item_data apiMember) packagesTable s =
                 Inr (t1, s1, page)"
    show "outcome (case (t1, s1, page) of
            (packagesTable', s1, page) \<Rightarrow>
              if page
              then case writeApiItemPage self hierarchy apiMember s1 of
                     Inl e \<Rightarrow> Inl e
                   | Inr s2 \<Rightarrow> modelMembers self hierarchy rest packagesTable' s2
              else modelMembers self hierarchy rest packagesTable' s1) =
          outcome (case (t1', s1', page) of
            (packagesTable', s1, page) \<Rightarrow>
              if page
              then case writeApiItemPage self hierarchy apiMember s1 of
                     Inl e \<Rightarrow> Inl e
                   | Inr s2 \<Rightarrow> modelMembers self hierarchy rest packagesTable' s2
              else modelMembers self hierarchy rest packagesTable' s1)"
      unfolding prod.case
      by (rule outcome_loop_step)
         (use 4(1) [OF r refl refl] 4(2) [OF r refl refl] 4(3) [OF r refl refl] in blast)+
  qed
next
  case (5 self hierarchy out k ms s)
  show ?case
  proof (cases "k = Package")
    case True
    show ?thesis
    proof (cases ms)
      case Nil
      with True show ?thesis by simp
    next
      case (Cons ep eps)
      obtain epd epms where ep: "ep = ApiItem epd epms" by (cases ep)
      from 5(1) [OF True Cons ep] True Cons ep show ?thesis
        by (simp add: outcome_bind2I)
    qed
  next
    case False
    from 5(2) [OF False] False show ?thesis
      by (simp add: outcome_bind2I)
  qed
next
  case (6 self hierarchy t s)
  show ?case by simp
next
  case (7 self hierarchy apiMember rest t s)
  show ?case
    unfolding containerMembers.simps
  proof (rule outcome_rowI [OF rowOutcome_container])
    fix t1 s1 t1' s1' page
    assume r: "containerMemberRow self hierarchy (item_data apiMember) t s = Inr (t1, s1, page)"
    show "outcome (case (t1, s1, page) of
            (t', s1, page) \<Rightarrow>
              if page
              then case writeApiItemPage self hierarchy apiMember s1 of
                     Inl e \<Rightarrow> Inl e
                   | Inr s2 \<Rightarrow> containerMembers self hierarchy rest t' s2
              else containerMembers self hierarchy rest t' s1) =
          outcome (case (t1', s1', page) of
            (t', s1, page) \<Rightarrow>
              if page
              then case writeApiItemPage self hierarchy apiMember s1 of
                     Inl e \<Rightarrow> Inl e
                   | Inr s2 \<Rightarrow> containerMembers self hierarchy rest t' s2
              else containerMembers self hierarchy rest t' s1)"
      unfolding prod.case
      by (rule outcome_loop_step)
         (use 7(1) [OF r refl refl] 7(2) [OF r refl refl] 7(3) [OF r refl refl] in blast)+
  qed
next
  case (8 self hierarchy out ms s)
  show ?case
    unfolding writeClassTables.simps
    by (rule outcome_bind2I [OF 8]) simp
next
  case (9 self hierarchy t s)
  show ?case by simp
next
  case (10 self hierarchy apiMember rest t s)
  show ?case
    unfolding classMembers.simps
  proof (rule outcome_rowI [OF rowOutcome_class])
    fix t1 s1 t1' s1' page
    assume r: "classMemberRow self hierarchy (item_data apiMember) t s = Inr (t1, s1, page)"
    show "outcome (case (t1, s1, page) of
            (t', s1, page) \<Rightarrow>
              if page
              then case writeApiItemPage self hierarchy apiMember s1 of
                     Inl e \<Rightarrow> Inl e
                   | Inr s2 \<Rightarrow> classMembers self hierarchy rest t' s2
              else classMembers self hierarchy rest t' s1) =
          outcome (case (t1', s1', page) of
            (t', s1, page) \<Rightarrow>
              if page
              then case writeApiItemPage self hierarchy apiMember s1 of
                     Inl e \<Rightarrow> Inl e
                   | Inr s2 \<Rightarrow> classMembers self hierarchy rest t' s2
              else classMembers self hierarchy rest t' s1)"
      unfolding prod.case
      by (rule outcome_loop_step)
         (use 10(1) [OF r refl refl] 10(2) [OF r refl refl] 10(3) [OF r refl refl] in blast)+
  qed
next
  case (11 self hierarchy out ms s)
  show ?case
    unfolding writeInterfaceTables.simps
    by (rule outcome_bind2I [OF 11]) simp
next
  case (12 self hierarchy t s)
  show ?case by simp
next
  case (13 self hierarchy apiMember rest t s)
  show ?case
    unfolding interfaceMembers.simps
  proof (rule outcome_rowI [OF rowOutcome_interface])
    fix t1 s1 t1' s1' page
    assume r: "interfaceMemberRow self hierarchy (item_data apiMember) t s = Inr (t1, s1, page)"
    show "outcome (case (t1, s1, page) of
            (t', s1, page) \<Rightarrow>
              if page
              then case writeApiItemPage self hierarchy apiMember s1 of
                     Inl e \<Rightarrow> Inl e
                   | Inr s2 \<Rightarrow> interfaceMembers self hierarchy rest t' s2
              else interfaceMembers self hierarchy rest t' s1) =
          outcome (case (t1', s1', page) of
            (t', s1, page) \<Rightarrow>
              if page
              then case writeApiItemPage self hierarchy apiMember s1 of
                     Inl e \<Rightarrow> Inl e
                   | Inr s2 \<Rightarrow> interfaceMembers self hierarchy rest t' s2
              else interfaceMembers self hierarchy rest t' s1)"
      unfolding prod.case
      by (rule outcome_loop_step)
         (use 13(1) [OF r refl refl] 13(2) [OF r refl refl] 13(3) [OF r refl refl] in blast)+
  qed
qed


text \<open>
  A failing page of a member makes every loop that reaches it fail, and with the loop
  the page of the container; so a failing page anywhere below an item makes the page
  of the item fail.
\<close>

lemma outcome_None_iff: "(outcome r \<noteq> None) = (\<exists>e. r = Inl e)"
  by (cases r) auto

lemma page_fails_everywhere:
  assumes "writeApiItemPage self h m s0 = Inl e"
  shows "writeApiItemPage self h m s = Inl e"
  using outcome_generator(1) [of self h m s0 s] assms
  by (cases "writeApiItemPage self h m s") auto

lemma loop_fails:
  assumes step: "\<And>x xs t s. L (x # xs) t s =
            (case R x t s of
               Inl e \<Rightarrow> Inl e
             | Inr (t', s1, page) \<Rightarrow>
                 if page
                 then (case P x s1 of Inl e \<Rightarrow> Inl e | Inr s2 \<Rightarrow> L xs t' s2)
                 else L xs t' s1)"
    and flag: "\<And>t s t1 s1 page. R m t s = Inr (t1, s1, page) \<Longrightarrow> page"
    and fail: "\<And>s. \<exists>e. P m s = Inl e"
    and mem: "m \<in> set ms"
  shows "\<exists>e. L ms t s = Inl e"
  using mem
proof (induction ms arbitrary: t s)
  case Nil
  then show ?case by simp
next
  case (Cons x xs)
  show ?case
  proof (cases "R x t s")
    case (Inl e)
    then show ?thesis by (simp add: step)
  next
    case (Inr r)
    obtain t1 s1 page where r: "r = (t1, s1, page)" by (cases r)
    show ?thesis
    proof (cases "x = m")
      case True
      with Inr r flag have page by blast
      moreover from fail True obtain e where "P x s1 = Inl e" by blast
      ultimately show ?thesis using Inr r by (simp add: step)
    next
      case False
      with Cons.prems have "m \<in> set xs" by simp
      from Cons.IH [OF this] have rest: "\<And>t s. \<exists>e. L xs t s = Inl e" .
      show ?thesis
      proof (cases "page")
        case True
        show ?thesis
        proof (cases "P x s1")
          case Inl2: (Inl e)
          with Inr r True show ?thesis by (simp add: step)
        next
          case Inr2: (Inr s2)
          from rest [of t1 s2] Inr r True Inr2 show ?thesis by (simp add: step)
        qed
      next
        case False
        from rest [of t1 s1] Inr r False show ?thesis by (simp add: step)
      qed
    qed
  qed
qed

lemma row_flag_model:
  "k = Package \<Longrightarrow> kind d = k \<Longrightarrow> modelMemberRow self h d t s = Inr (t1, s1, page) \<Longrightarrow> page"
  by (auto simp: modelMemberRow_def Let_def split: sum.splits prod.splits)

lemma row_flag_container:
  "routed Package (kind d) \<Longrightarrow> containerMemberRow self h d t s = Inr (t1, s1, page) \<Longrightarrow> page"
  by (cases "kind d")
     (auto simp: containerMemberRow_def routed_def Let_def split: sum.splits prod.splits)

lemma row_flag_class:
  "routed Class (kind d) \<Longrightarrow> classMemberRow self h d t s = Inr (t1, s1, page) \<Longrightarrow> page"
  by (cases "kind d")
     (auto simp: classMemberRow_def routed_def Let_def split: sum.splits prod.splits if_splits)

lemma row_flag_interface:
  "routed Interface (kind d) \<Longrightarrow> interfaceMemberRow self h d t s = Inr (t1, s1, page) \<Longrightarrow> page"
  by (cases "kind d")
     (auto simp: interfaceMemberRow_def routed_def Let_def split: sum.splits prod.splits if_splits)

lemma member_page_failure_propagates:
  assumes mem: "(h, m) \<in> set (memberPages ancestors node)"
    and fail: "writeApiItemPage self h m s0 = Inl e0"
  shows "\<exists>e. writeApiItemPage self ancestors node s = Inl e"
proof -
  obtain d ms where node: "node = ApiItem d ms" by (cases node)
  have P: "\<And>s. \<exists>e. writeApiItemPage self h m s = Inl e"
    using page_fails_everywhere [OF fail] by blast
  show ?thesis
  proof (cases "pageStart self ancestors d s")
    case (Inl e)
    with node show ?thesis by simp
  next
    case (Inr r)
    obtain out1 s1 where r: "r = (out1, s1)" by (cases r)
    have body: "\<exists>e. (if kind d = Class
                 then writeClassTables self (ancestors @ [d]) out1 ms s1
                 else if kind d = Interface
                 then writeInterfaceTables self (ancestors @ [d]) out1 ms s1
                 else if kind d = Namespace \<or> kind d = Package
                 then writePackageOrNamespaceTables self (ancestors @ [d]) out1 (kind d) ms s1
                 else if kind d = Model
                 then writeModelTable self (ancestors @ [d]) out1 ms s1
                 else writeOtherBody self out1 d ms s1) = Inl e"
    proof (cases "kind d = Package")
      case True
      with mem node obtain epd epms rest where
        ms: "ms = ApiItem epd epms # rest" and h: "h = ancestors @ [d, epd]" and
        mm: "m \<in> set epms" and mr: "routed Package (kind (item_data m))"
        by (auto split: list.splits ApiItem.splits)
      have "\<exists>e. containerMembers self h epms newContainerTables s1 = Inl e"
        by (rule loop_fails [where R = "\<lambda>x. containerMemberRow self h (item_data x)"
              and P = "writeApiItemPage self h" and m = m])
           (use mm mr P row_flag_container in \<open>auto split: sum.splits prod.splits\<close>)
      with True ms h show ?thesis by auto
    next
      case False
      with mem node have h: "h = ancestors @ [d]" and
        mm: "m \<in> set ms" and mr: "routed (kind d) (kind (item_data m))"
        by auto
      consider (c) "kind d = Class" | (i) "kind d = Interface" | (n) "kind d = Namespace"
        | (mo) "kind d = Model"
        using mr False by (auto simp: routed_def split: if_splits)
      then show ?thesis
      proof cases
        case c
        have "\<exists>e. classMembers self h ms newClassTables s1 = Inl e"
          by (rule loop_fails [where R = "\<lambda>x. classMemberRow self h (item_data x)"
                and P = "writeApiItemPage self h" and m = m])
             (use mm mr c P row_flag_class in \<open>auto split: sum.splits prod.splits\<close>)
        with c h show ?thesis by auto
      next
        case i
        have "\<exists>e. interfaceMembers self h ms newInterfaceTables s1 = Inl e"
          by (rule loop_fails [where R = "\<lambda>x. interfaceMemberRow self h (item_data x)"
                and P = "writeApiItemPage self h" and m = m])
             (use mm mr i P row_flag_interface in \<open>auto split: sum.splits prod.splits\<close>)
        with i h show ?thesis by auto
      next
        case n
        from mr n have rt: "routed Package (kind (item_data m))" by (simp add: routed_def)
        have "\<exists>e. containerMembers self h ms newContainerTables s1 = Inl e"
          by (rule loop_fails [where R = "\<lambda>x. containerMemberRow self h (item_data x)"
                and P = "writeApiItemPage self h" and m = m])
             (use mm rt P row_flag_container in \<open>auto split: sum.splits prod.splits\<close>)
        with n h show ?thesis by auto
      next
        case mo
        from mr mo have k: "kind (item_data m) = Package" by (simp add: routed_def)
        have "\<exists>e. modelMembers self h ms (table [''Package'', ''Description'']) s1 = Inl e"
          by (rule loop_fails [where R = "\<lambda>x. modelMemberRow self h (item_data x)"
                and P = "writeApiItemPage self h" and m = m])
             (use mm k P row_flag_model in \<open>auto split: sum.splits prod.splits\<close>)
        with mo h show ?thesis by auto
      qed
    qed
    then obtain e where "(if kind d = Class
                 then writeClassTables self (ancestors @ [d]) out1 ms s1
                 else if kind d = Interface
                 then writeInterfaceTables self (ancestors @ [d]) out1 ms s1
                 else if kind d = Namespace \<or> kind d = Package
                 then writePackageOrNamespaceTables self (ancestors @ [d]) out1 (kind d) ms s1
                 else if kind d = Model
                 then writeModelTable self (ancestors @ [d]) out1 ms s1
                 else writeOtherBody self out1 d ms s1) = Inl e" ..
    with Inr r node show ?thesis by simp
  qed
qed


lemma page_failure_propagates:
  "(h, m) \<in> set (allPages ancestors node) \<Longrightarrow> writeApiItemPage self h m s0 = Inl e0 \<Longrightarrow>
     \<exists>e. writeApiItemPage self ancestors node s = Inl e"
proof (induction ancestors node arbitrary: s rule: allPages.induct)
  case (1 ancestors node)
  from 1(2) consider "(h, m) = (ancestors, node)"
    | c where "c \<in> set (memberPages ancestors node)" "(h, m) \<in> set (allPages (fst c) (snd c))"
    by (subst (asm) allPages.simps) auto
  then show ?case
  proof cases
    case 1
    with page_fails_everywhere [OF "1.prems"(2), of s] show ?thesis by auto
  next
    case 2
    obtain ch cm where c: "c = (ch, cm)" by (cases c)
    from "1.IH" [OF 2(1) c [symmetric]] 2(2) c "1.prems"(2)
    obtain e where "writeApiItemPage self ch cm s = Inl e" by auto
    from member_page_failure_propagates [OF _ this, of ancestors node s] 2(1) c
    show ?thesis by simp
  qed
qed

text \<open>
  Claim C7, as amended. The page writer, called for an item whose kind has no heading,
  fails with the unsupported-kind error; the renderer fails on a sequence that holds,
  at the top or inside paragraphs, a node of a kind without rendering rule, and so does
  the page of an item with such a summary. No caller catches an error: when any page
  that the run reaches fails, the run fails. A member of a class or of an interface
  whose kind the member loop does not list is passed over: no row, no page, no error.
\<close>

theorem unsupported_kinds_are_fatal:
  "(kind apiItem \<in> {CallSignature, EntryPoint, EnumMember, IndexSignature, NoneKind} \<longrightarrow>
      writeApiItemPage self ancestors (ApiItem apiItem ms) s =
        Inl (UnsupportedApiItemKind (kind apiItem))) \<and>
   (unsupportedNodes ns \<longrightarrow> (\<exists>k. createDocNodes ns s = Inl (UnsupportedDocNodeKind k))) \<and>
   (tsdocComment apiItem = Some c \<and> unsupportedNodes (summarySection c) \<longrightarrow>
      (\<exists>e. writeApiItemPage self ancestors (ApiItem apiItem ms) s = Inl e)) \<and>
   ((h, m) \<in> set (allPages [] (apiModel self)) \<and> writeApiItemPage self h m s0 = Inl e0 \<longrightarrow>
      (\<exists>e. generateFiles self outputFolder = Inl e)) \<and>
   (kind apiItem \<notin> {ConstructSignature, MethodSignature, PropertySignature} \<longrightarrow>
      interfaceMembers self hierarchy (ApiItem apiItem ms # rest) t s =
        interfaceMembers self hierarchy rest t s) \<and>
   (kind apiItem \<notin> {Constructor, Method, Property} \<longrightarrow>
      classMembers self hierarchy (ApiItem apiItem ms # rest) t' s =
        classMembers self hierarchy rest t' s)"
proof (intro conjI impI)
  show "writeApiItemPage self ancestors (ApiItem apiItem ms) s =
        Inl (UnsupportedApiItemKind (kind apiItem))"
    if "kind apiItem \<in> {CallSignature, EntryPoint, EnumMember, IndexSignature, NoneKind}"
    using writeHeading_unsupported [OF that] by (simp add: pageStart_def)
  show "\<exists>k. createDocNodes ns s = Inl (UnsupportedDocNodeKind k)" if "unsupportedNodes ns"
    using that by (rule createDocNodes_unsupported)
  show "\<exists>e. writeApiItemPage self ancestors (ApiItem apiItem ms) s = Inl e"
    if h: "tsdocComment apiItem = Some c \<and> unsupportedNodes (summarySection c)"
  proof (cases "writeHeading self (writeBreadcrumb self [] ancestors apiItem) apiItem s")
    case (Inl e)
    then show ?thesis by (simp add: pageStart_def)
  next
    case (Inr r)
    obtain out s1 where r: "r = (out, s1)" by (cases r)
    from h createDocNodes_unsupported [of "summarySection c" s1]
    obtain k where "createDocNodes (summarySection c) s1 = Inl (UnsupportedDocNodeKind k)"
      by blast
    with h have "writeSummary out apiItem s1 = Inl (UnsupportedDocNodeKind k)"
      by (simp add: writeSummary_def del: createDocNodes.simps)
    with Inr r show ?thesis by (simp add: pageStart_def)
  qed
  show "\<exists>e. generateFiles self outputFolder = Inl e"
    if "(h, m) \<in> set (allPages [] (apiModel self)) \<and> writeApiItemPage self h m s0 = Inl e0"
    using that page_failure_propagates [of h m "[]" "apiModel self" self s0 e0]
    by (simp add: generateFiles_def del: writeApiItemPage.simps)
  show "interfaceMembers self hierarchy (ApiItem apiItem ms # rest) t s =
        interfaceMembers self hierarchy rest t s"
    if "kind apiItem \<notin> {ConstructSignature, MethodSignature, PropertySignature}"
    using that by (simp add: interfaceMemberRow_def)
  show "classMembers self hierarchy (ApiItem apiItem ms # rest) t' s =
        classMembers self hierarchy rest t' s"
    if "kind apiItem \<notin> {Constructor, Method, Property}"
    using that by (cases "kind apiItem") (simp_all add: classMemberRow_def)
qed

theorem unsupported_kinds_witness:
  "writeApiItemPage (documenter failModel) [] (ApiItem (item CallSignature ''(call)'') [])
      emptyState = Inl (UnsupportedApiItemKind CallSignature) \<and>
   (\<exists>k. createDocNodes [DocParagraph [DocPlainText ''at most'', DocOther ''EscapedText'']]
           emptyState = Inl (UnsupportedDocNodeKind k)) \<and>
   (\<exists>e. writeApiItemPage (documenter failModel) widgetsPath (ApiItem escapedSummary [])
           emptyState = Inl e) \<and>
   (widgetsPath, ApiItem escapedSummary []) \<in> set (allPages [] failModel) \<and>
   (\<exists>e. generateFiles (documenter failModel) ''out'' = Inl e)"
proof -
  have a: "(widgetsPath, ApiItem escapedSummary []) \<in> set (allPages [] failModel)"
    by code_simp
  have b: "writeApiItemPage (documenter failModel) widgetsPath (ApiItem escapedSummary [])
             emptyState = Inl (UnsupportedDocNodeKind ''EscapedText'')"
    by code_simp
  have d: "apiModel (documenter failModel) = failModel"
    by (simp add: documenter_def)
  have k: "kind (item CallSignature ''(call)'') \<in>
             {CallSignature, EntryPoint, EnumMember, IndexSignature, NoneKind}"
    "kind (item CallSignature ''(call)'') = CallSignature"
    by (simp_all add: item_def)
  have u: "unsupportedNodes [DocParagraph [DocPlainText ''at most'', DocOther ''EscapedText'']]"
    by simp
  have c: "tsdocComment escapedSummary =
             Some \<lparr> summarySection =
                      [DocParagraph [DocPlainText ''at most'', DocOther ''EscapedText'']],
                    remarksBlock = None \<rparr>"
    by (simp add: escapedSummary_def item_def)
  from unsupported_kinds_are_fatal
         [where apiItem = "item CallSignature ''(call)''" and self = "documenter failModel"
            and ancestors = "[]" and ms = "[]" and s = emptyState
            and ns = "[DocParagraph [DocPlainText ''at most'', DocOther ''EscapedText'']]"
            and h = widgetsPath and m = "ApiItem escapedSummary []" and ?s0.0 = emptyState
            and ?e0.0 = "UnsupportedDocNodeKind ''EscapedText''" and outputFolder = "''out''"]
       k u a b d
  have 1: "writeApiItemPage (documenter failModel) [] (ApiItem (item CallSignature ''(call)'') [])
             emptyState = Inl (UnsupportedApiItemKind CallSignature)"
    and 2: "\<exists>k. createDocNodes [DocParagraph [DocPlainText ''at most'', DocOther ''EscapedText'']]
              emptyState = Inl (UnsupportedDocNodeKind k)"
    and 3: "\<exists>e. generateFiles (documenter failModel) ''out'' = Inl e"
    by (simp_all del: createDocNodes.simps writeApiItemPage.simps)
  from unsupported_kinds_are_fatal
         [where apiItem = escapedSummary and self = "documenter failModel"
            and ancestors = widgetsPath and ms = "[]" and s = emptyState
            and c = "\<lparr> summarySection =
                          [DocParagraph [DocPlainText ''at most'', DocOther ''EscapedText'']],
                        remarksBlock = None \<rparr>"]
       c u
  have 4: "\<exists>e. writeApiItemPage (documenter failModel) widgetsPath (ApiItem escapedSummary [])
              emptyState = Inl e"
    by (simp del: createDocNodes.simps writeApiItemPage.simps)
  from 1 2 3 4 a show ?thesis by blast
qed

theorem unrouted_member_skipped_counterexample:
  "kind (item CallSignature ''(call)'') \<in>
     {CallSignature, EntryPoint, EnumMember, IndexSignature, NoneKind} \<and>
   kind (item EnumMember ''red'') \<in>
     {CallSignature, EntryPoint, EnumMember, IndexSignature, NoneKind} \<and>
   (case generateFiles (documenter skipModel) ''out'' of
      Inl e \<Rightarrow> None
    | Inr s \<Rightarrow> Some (map fst (files s))) =
     Some [''widgets.color.html'', ''widgets.shape.area.html'', ''widgets.shape.html'',
           ''widgets.html'', ''index.html'']"
  by code_simp


end
